theory Spec2Isabelle
  imports Complex_Main "HOL-Library.Char_ord" "HOL-Library.List_Lexorder" "HOL-Library.AList"
begin

section \<open>Python values used by the Borealis workspace and job tools\<close>

text \<open>
  Strings are lists of characters. An Isabelle \<open>char\<close> is read as the Unicode code point
  of the same number (0 to 255), so the model covers Python strings over that range; the
  character classes below are the ones Python 3 gives on it:
  \<^item> \<open>isspace\<close> is \<^verbatim>\<open>str.isspace\<close>, which is also what \<^verbatim>\<open>str.strip()\<close> removes and
    what the regular expression class \<^verbatim>\<open>\s\<close> matches;
  \<^item> \<open>isdigit_re\<close> is the class \<^verbatim>\<open>\d\<close>;
  \<^item> \<open>isalnum\<close> is \<^verbatim>\<open>str.isalnum\<close>.
\<close>

definition code_point :: "char \<Rightarrow> nat" where
  "code_point c = of_char c"

definition newline :: char where
  "newline = CHR 0x0A"

definition isspace :: "char \<Rightarrow> bool" where
  "isspace c \<longleftrightarrow>
     (9 \<le> code_point c \<and> code_point c \<le> 13) \<or> (28 \<le> code_point c \<and> code_point c \<le> 32)
     \<or> code_point c = 133 \<or> code_point c = 160"

definition isdigit_re :: "char \<Rightarrow> bool" where
  "isdigit_re c \<longleftrightarrow> 48 \<le> code_point c \<and> code_point c \<le> 57"

definition isalnum :: "char \<Rightarrow> bool" where
  "isalnum c \<longleftrightarrow>
     (48 \<le> code_point c \<and> code_point c \<le> 57) \<or> (65 \<le> code_point c \<and> code_point c \<le> 90)
     \<or> (97 \<le> code_point c \<and> code_point c \<le> 122) \<or> code_point c = 170
     \<or> (178 \<le> code_point c \<and> code_point c \<le> 179) \<or> code_point c = 181
     \<or> (185 \<le> code_point c \<and> code_point c \<le> 186) \<or> (188 \<le> code_point c \<and> code_point c \<le> 190)
     \<or> (192 \<le> code_point c \<and> code_point c \<le> 214) \<or> (216 \<le> code_point c \<and> code_point c \<le> 246)
     \<or> 248 \<le> code_point c"

definition isword_ascii :: "char \<Rightarrow> bool" where
  \<comment> \<open>the class \<^verbatim>\<open>[a-zA-Z0-9_]\<close>\<close>
  "isword_ascii c \<longleftrightarrow>
     (48 \<le> code_point c \<and> code_point c \<le> 57) \<or> (65 \<le> code_point c \<and> code_point c \<le> 90)
     \<or> (97 \<le> code_point c \<and> code_point c \<le> 122) \<or> c = CHR ''_''"

definition strip :: "string \<Rightarrow> string" where
  \<comment> \<open>\<^verbatim>\<open>s.strip()\<close>: whitespace removed at both ends\<close>
  "strip s = rev (dropWhile isspace (rev (dropWhile isspace s)))"

definition digit_char :: "nat \<Rightarrow> char" where
  "digit_char d = ''0123456789'' ! d"

fun str_nat :: "nat \<Rightarrow> string" where
  \<comment> \<open>\<^verbatim>\<open>str(n)\<close> for a non-negative integer\<close>
  "str_nat n = (if n < 10 then [digit_char n] else str_nat (n div 10) @ [digit_char (n mod 10)])"

declare str_nat.simps [simp del]

definition str_int :: "int \<Rightarrow> string" where
  "str_int i = (if i < 0 then CHR ''-'' # str_nat (nat (- i)) else str_nat (nat i))"

definition zfill :: "nat \<Rightarrow> string \<Rightarrow> string" where
  \<comment> \<open>zero padding on the left, as the formats \<^verbatim>\<open>%02d\<close>, \<^verbatim>\<open>%04d\<close>, \<^verbatim>\<open>%06d\<close> do\<close>
  "zfill k s = replicate (k - length s) (CHR ''0'') @ s"

text \<open>
  The values a workspace's metadata map holds (\<^verbatim>\<open>Dict[str, Any]\<close>, stored as JSON): the
  JSON scalars. Floats and nested lists and objects are not modelled. \<open>truthy\<close> is Python's
  truth value of such a value and \<open>py_str\<close> its \<^verbatim>\<open>str()\<close>.
\<close>

datatype pyval = PNone | PBool bool | PInt int | PStr string

fun truthy :: "pyval \<Rightarrow> bool" where
  "truthy PNone = False"
| "truthy (PBool b) = b"
| "truthy (PInt i) = (i \<noteq> 0)"
| "truthy (PStr s) = (s \<noteq> [])"

fun py_str :: "pyval \<Rightarrow> string" where
  "py_str PNone = ''None''"
| "py_str (PBool b) = (if b then ''True'' else ''False'')"
| "py_str (PInt i) = str_int i"
| "py_str (PStr s) = s"

definition nonempty :: "string option \<Rightarrow> bool" where
  \<comment> \<open>the truth value of an \<^verbatim>\<open>Optional[str]\<close>: neither \<^verbatim>\<open>None\<close> nor the empty string\<close>
  "nonempty x \<longleftrightarrow> (case x of None \<Rightarrow> False | Some s \<Rightarrow> s \<noteq> [])"

text \<open>The exceptions the modelled code raises or lets through, as values.\<close>

datatype py_exn =
    ValidationError string
  | PBSException string
  | PBSConnectionError string string string
  | RuntimeError string
  | KeyError string
  | FileExistsError string
  | FileNotFoundError string
  | NotADirectoryError string

fun is_OSError :: "py_exn \<Rightarrow> bool" where
  "is_OSError (FileExistsError _) = True"
| "is_OSError (FileNotFoundError _) = True"
| "is_OSError (NotADirectoryError _) = True"
| "is_OSError _ = False"

fun exn_str :: "py_exn \<Rightarrow> string" where
  \<comment> \<open>\<^verbatim>\<open>str(e)\<close>\<close>
  "exn_str (ValidationError m) = m"
| "exn_str (PBSException m) = m"
| "exn_str (PBSConnectionError server sysname orig) =
     ''Failed to connect to PBS server '' @ [CHR 0x27] @ server @ [CHR 0x27] @ ''. ''
     @ ''Ensure you are on a '' @ sysname @ '' login node with PBS access. ''
     @ (if orig \<noteq> [] then ''Details: '' @ orig else [])"
| "exn_str (RuntimeError m) = m"
| "exn_str (KeyError k) = [CHR 0x27] @ k @ [CHR 0x27]"
| "exn_str (FileExistsError p) = ''[Errno 17] File exists: '' @ [CHR 0x27] @ p @ [CHR 0x27]"
| "exn_str (FileNotFoundError p) =
     ''[Errno 2] No such file or directory: '' @ [CHR 0x27] @ p @ [CHR 0x27]"
| "exn_str (NotADirectoryError p) = ''[Errno 20] Not a directory: '' @ [CHR 0x27] @ p @ [CHR 0x27]"

section \<open>Regular expressions (config/constants.py)\<close>

text \<open>
  The three validation patterns are compiled once and used with \<^verbatim>\<open>REGEX.match(s)\<close>.
  A pattern is a term of \<open>rx\<close>; \<open>matcher\<close> decides by derivatives whether the whole
  string is in its language. \<^verbatim>\<open>match\<close> anchors at the start of the string, where
  \<^verbatim>\<open>^\<close> is then always true (\<open>Caret\<close>), and each pattern ends in \<^verbatim>\<open>$\<close>, which
  Python lets succeed at the end of the string and also just before a newline that ends the
  string (\<open>Dollar\<close>); so \<^verbatim>\<open>match\<close> succeeds exactly when the whole string is in the
  language of the pattern with \<^verbatim>\<open>$\<close> read as an optional final newline.
\<close>

datatype cclass = Digit | Dot | NonSpace | WordAscii | Lit char

fun cclass_match :: "cclass \<Rightarrow> char \<Rightarrow> bool" where
  "cclass_match Digit c = isdigit_re c"
| "cclass_match Dot c = (c \<noteq> newline)"
| "cclass_match NonSpace c = (\<not> isspace c)"
| "cclass_match WordAscii c = isword_ascii c"
| "cclass_match (Lit d) c = (c = d)"

datatype rx = Never | Empty | Chr cclass | Cat rx rx | Or rx rx | Many rx

fun nullable :: "rx \<Rightarrow> bool" where
  "nullable Never = False"
| "nullable Empty = True"
| "nullable (Chr k) = False"
| "nullable (Cat r s) = (nullable r \<and> nullable s)"
| "nullable (Or r s) = (nullable r \<or> nullable s)"
| "nullable (Many r) = True"

fun deriv :: "char \<Rightarrow> rx \<Rightarrow> rx" where
  "deriv c Never = Never"
| "deriv c Empty = Never"
| "deriv c (Chr k) = (if cclass_match k c then Empty else Never)"
| "deriv c (Cat r s) =
     (if nullable r then Or (Cat (deriv c r) s) (deriv c s) else Cat (deriv c r) s)"
| "deriv c (Or r s) = Or (deriv c r) (deriv c s)"
| "deriv c (Many r) = Cat (deriv c r) (Many r)"

fun matcher :: "rx \<Rightarrow> string \<Rightarrow> bool" where
  "matcher r [] = nullable r"
| "matcher r (c # cs) = matcher (deriv c r) cs"

definition Caret :: rx where
  "Caret = Empty"

definition Dollar :: rx where
  "Dollar = Or Empty (Chr (Lit newline))"

definition OneOrMore :: "rx \<Rightarrow> rx" where
  \<comment> \<open>\<^verbatim>\<open>r+\<close>\<close>
  "OneOrMore r = Cat r (Many r)"

definition Optional :: "rx \<Rightarrow> rx" where
  \<comment> \<open>\<^verbatim>\<open>r?\<close>\<close>
  "Optional r = Or r Empty"

definition WALLTIME_PATTERN :: rx where
  \<comment> \<open>\<^verbatim>\<open>^\d{1,3}:\d{2}:\d{2}$\<close>\<close>
  "WALLTIME_PATTERN =
     Cat Caret (Cat (Chr Digit) (Cat (Optional (Chr Digit)) (Cat (Optional (Chr Digit))
       (Cat (Chr (Lit (CHR '':''))) (Cat (Chr Digit) (Cat (Chr Digit)
         (Cat (Chr (Lit (CHR '':''))) (Cat (Chr Digit) (Cat (Chr Digit) Dollar)))))))))"

definition FILESYSTEMS_PATTERN :: rx where
  \<comment> \<open>\<^verbatim>\<open>^[a-zA-Z0-9_]+(:[a-zA-Z0-9_]+)*$\<close>\<close>
  "FILESYSTEMS_PATTERN =
     Cat Caret (Cat (OneOrMore (Chr WordAscii))
       (Cat (Many (Cat (Chr (Lit (CHR '':''))) (OneOrMore (Chr WordAscii)))) Dollar))"

definition JOB_ID_PATTERN :: rx where
  \<comment> \<open>\<^verbatim>\<open>^\d+\..+$\<close>\<close>
  "JOB_ID_PATTERN =
     Cat Caret (Cat (OneOrMore (Chr Digit)) (Cat (Chr (Lit (CHR ''.''))) (Cat (OneOrMore (Chr Dot)) Dollar)))"

definition SPEC_JOB_ID_PATTERN :: rx where
  \<comment> \<open>the pattern the specification gives for job identifiers, \<^verbatim>\<open>^\d+\.\S+$\<close>; the code
     does not use it\<close>
  "SPEC_JOB_ID_PATTERN =
     Cat Caret (Cat (OneOrMore (Chr Digit)) (Cat (Chr (Lit (CHR ''.''))) (Cat (OneOrMore (Chr NonSpace)) Dollar)))"

definition regex_match :: "rx \<Rightarrow> string \<Rightarrow> bool" where
  \<comment> \<open>\<^verbatim>\<open>REGEX.match(s)\<close> is not \<^verbatim>\<open>None\<close>\<close>
  "regex_match r s = matcher r s"

section \<open>Input validation (utils/validation.py)\<close>

definition validate_job_id :: "string \<Rightarrow> py_exn + unit" where
  "validate_job_id jid =
     (if \<not> regex_match JOB_ID_PATTERN jid then
        Inl (ValidationError (''Invalid job ID format: '' @ [CHR 0x27] @ jid @ [CHR 0x27] @ ''. ''
          @ ''Expected format: <number>.<server> (e.g., 12345.aurora-pbs-01)''))
      else Inr ())"

definition validate_walltime :: "string \<Rightarrow> py_exn + unit" where
  "validate_walltime walltime =
     (if \<not> regex_match WALLTIME_PATTERN walltime then
        Inl (ValidationError (''Invalid walltime format: '' @ [CHR 0x27] @ walltime @ [CHR 0x27]
          @ ''. Expected HH:MM:SS (e.g., 01:30:00)''))
      else Inr ())"

definition validate_filesystems :: "string \<Rightarrow> py_exn + unit" where
  "validate_filesystems filesystems =
     (if \<not> regex_match FILESYSTEMS_PATTERN filesystems then
        Inl (ValidationError (''Invalid filesystems format: '' @ [CHR 0x27] @ filesystems @ [CHR 0x27]
          @ ''. '' @ ''Expected format like '' @ [CHR 0x27] @ ''flare:home'' @ [CHR 0x27]
          @ '' (colon-separated names)''))
      else Inr ())"

definition account_required :: string where
  "account_required =
     ''PBS account is required. Set PBS_ACCOUNT environment variable ''
     @ ''or pass account parameter explicitly.''"

definition validate_account :: "string option \<Rightarrow> py_exn + string" where
  "validate_account account =
     (case account of
        None \<Rightarrow> Inl (ValidationError account_required)
      | Some a \<Rightarrow>
          if a = [] \<or> strip a = [] then Inl (ValidationError account_required)
          else Inr (strip a))"

section \<open>Timestamps\<close>

text \<open>
  The fields of a \<^verbatim>\<open>datetime\<close> as \<^verbatim>\<open>datetime.now()\<close> returns it (no time zone).
  \<open>strftime_dirname\<close> is \<^verbatim>\<open>timestamp.strftime("%Y%m%d_%H%M%S")\<close> and \<open>isoformat\<close>
  is \<^verbatim>\<open>timestamp.isoformat()\<close>, which leaves the fraction out when the microsecond is 0.
\<close>

record datetime =
  dt_year :: nat
  dt_month :: nat
  dt_day :: nat
  dt_hour :: nat
  dt_minute :: nat
  dt_second :: nat
  dt_microsecond :: nat

definition strftime_dirname :: "datetime \<Rightarrow> string" where
  "strftime_dirname t =
     zfill 4 (str_nat (dt_year t)) @ zfill 2 (str_nat (dt_month t)) @ zfill 2 (str_nat (dt_day t))
     @ ''_'' @ zfill 2 (str_nat (dt_hour t)) @ zfill 2 (str_nat (dt_minute t))
     @ zfill 2 (str_nat (dt_second t))"

definition isoformat :: "datetime \<Rightarrow> string" where
  "isoformat t =
     zfill 4 (str_nat (dt_year t)) @ ''-'' @ zfill 2 (str_nat (dt_month t)) @ ''-''
     @ zfill 2 (str_nat (dt_day t)) @ ''T'' @ zfill 2 (str_nat (dt_hour t)) @ '':''
     @ zfill 2 (str_nat (dt_minute t)) @ '':'' @ zfill 2 (str_nat (dt_second t))
     @ (if dt_microsecond t = 0 then [] else ''.'' @ zfill 6 (str_nat (dt_microsecond t)))"

section \<open>The workspace store (core/workspace.py)\<close>

record workspace_info =
  workspace_id :: string
  path :: string
  job_name :: string
  created_at :: string
  system :: string
  status :: string
  job_id :: "string option"
  script_path :: "string option"
  metadata :: "string \<rightharpoonup> pyval"

text \<open>
  What \<^verbatim>\<open>json.load\<close> returns for a metadata file that parses: a JSON object whose
  values have the types the dataclass declares. A field is \<open>None\<close> when the key is absent
  (for \<open>d_job_id\<close> and \<open>d_script_path\<close> also when it is \<^verbatim>\<open>null\<close>, which
  \<^verbatim>\<open>data.get\<close> does not tell apart).
\<close>

record json_data =
  d_workspace_id :: "string option"
  d_path :: "string option"
  d_job_name :: "string option"
  d_created_at :: "string option"
  d_system :: "string option"
  d_status :: "string option"
  d_job_id :: "string option"
  d_script_path :: "string option"
  d_metadata :: "(string \<rightharpoonup> pyval) option"

definition to_dict :: "workspace_info \<Rightarrow> json_data" where
  "to_dict info =
     \<lparr>d_workspace_id = Some (workspace_id info), d_path = Some (path info),
      d_job_name = Some (job_name info), d_created_at = Some (created_at info),
      d_system = Some (system info), d_status = Some (status info), d_job_id = job_id info,
      d_script_path = script_path info, d_metadata = Some (metadata info)\<rparr>"

definition from_dict :: "json_data \<Rightarrow> py_exn + workspace_info" where
  "from_dict data =
     (case d_workspace_id data of None \<Rightarrow> Inl (KeyError ''workspace_id'') | Some wid \<Rightarrow>
     (case d_path data of None \<Rightarrow> Inl (KeyError ''path'') | Some p \<Rightarrow>
     (case d_job_name data of None \<Rightarrow> Inl (KeyError ''job_name'') | Some jn \<Rightarrow>
     (case d_created_at data of None \<Rightarrow> Inl (KeyError ''created_at'') | Some ca \<Rightarrow>
     (case d_system data of None \<Rightarrow> Inl (KeyError ''system'') | Some sy \<Rightarrow>
        Inr \<lparr>workspace_id = wid, path = p, job_name = jn, created_at = ca, system = sy,
             status = (case d_status data of None \<Rightarrow> ''active'' | Some s \<Rightarrow> s),
             job_id = d_job_id data, script_path = d_script_path data,
             metadata = (case d_metadata data of None \<Rightarrow> Map.empty | Some m \<Rightarrow> m)\<rparr>)))))"

text \<open>
  The file system under the store root: its first-level entries in the order
  \<^verbatim>\<open>iterdir()\<close> yields them, each under its full path (the string \<^verbatim>\<open>str(base / name)\<close>).
  An entry is a plain file or a directory; of a directory only the hidden metadata file
  \<^verbatim>\<open>.borealis_workspace.json\<close> matters: absent, not parsable as JSON, or a JSON object.
  A root that does not exist behaves in every operation below like an empty one, so it is
  the empty list. Paths are compared as strings, and a path that is not an entry of the
  root does not exist.
\<close>

datatype meta_file = Missing | Unparsable | Parsed json_data

datatype entry = File | Dir meta_file

type_synonym store = "(string \<times> entry) list"

record workspace_manager =
  base_path :: string
  system_name :: string

definition path_join :: "string \<Rightarrow> string \<Rightarrow> string" where
  "path_join base n = base @ ''/'' @ n"

definition get_workspace_dirname :: "string \<Rightarrow> datetime \<Rightarrow> string" where
  "get_workspace_dirname jname timestamp =
     (let ts_str = strftime_dirname timestamp;
          safe_name = map (\<lambda>c. if isalnum c \<or> c \<in> set ''-_'' then c else CHR ''_'') jname
      in safe_name @ ''_'' @ ts_str)"

fun load_workspace_metadata :: "meta_file \<Rightarrow> workspace_info option" where
  "load_workspace_metadata Missing = None"
| "load_workspace_metadata Unparsable = None"
| "load_workspace_metadata (Parsed data) =
     (case from_dict data of Inl e \<Rightarrow> None | Inr info \<Rightarrow> Some info)"

definition save_workspace_metadata :: "workspace_info \<Rightarrow> store \<Rightarrow> py_exn + store" where
  \<comment> \<open>\<^verbatim>\<open>open(Path(info.path) / WORKSPACE_METADATA_FILE, "w")\<close> and \<^verbatim>\<open>json.dump\<close>\<close>
  "save_workspace_metadata info fs =
     (case map_of fs (path info) of
        None \<Rightarrow> Inl (FileNotFoundError (path info))
      | Some File \<Rightarrow> Inl (NotADirectoryError (path info))
      | Some (Dir m) \<Rightarrow> Inr (AList.update (path info) (Dir (Parsed (to_dict info))) fs))"

definition mkdir :: "string \<Rightarrow> store \<Rightarrow> py_exn + store" where
  \<comment> \<open>\<^verbatim>\<open>workspace_path.mkdir(parents=True, exist_ok=False)\<close>\<close>
  "mkdir p fs =
     (case map_of fs p of
        Some e \<Rightarrow> Inl (FileExistsError p)
      | None \<Rightarrow> Inr (fs @ [(p, Dir Missing)]))"

definition create_workspace ::
  "workspace_manager \<Rightarrow> datetime \<Rightarrow> string \<Rightarrow> string \<Rightarrow> (string \<rightharpoonup> pyval) option \<Rightarrow> store
     \<Rightarrow> (py_exn + workspace_info) \<times> store" where
  \<comment> \<open>\<open>timestamp\<close> is what \<^verbatim>\<open>datetime.now()\<close> returns and \<open>wid\<close> what
     \<^verbatim>\<open>uuid.uuid4().hex[:12]\<close> returns in this call\<close>
  "create_workspace mgr timestamp wid jname md fs =
     (let dirname = get_workspace_dirname jname timestamp;
          workspace_path = path_join (base_path mgr) dirname
      in case mkdir workspace_path fs of
           Inl e \<Rightarrow> (Inl e, fs)
         | Inr fs1 \<Rightarrow>
             (let info = \<lparr>workspace_id = wid, path = workspace_path, job_name = jname,
                         created_at = isoformat timestamp, system = system_name mgr,
                         status = ''active'', job_id = None, script_path = None,
                         metadata = (case md of None \<Rightarrow> Map.empty | Some m \<Rightarrow> m)\<rparr>
              in case save_workspace_metadata info fs1 of
                   Inl e \<Rightarrow> (Inl e, fs1)
                 | Inr fs2 \<Rightarrow> (Inr info, fs2)))"

fun get_workspace :: "string \<Rightarrow> store \<Rightarrow> workspace_info option" where
  "get_workspace wid [] = None"
| "get_workspace wid ((p, File) # rest) = get_workspace wid rest"
| "get_workspace wid ((p, Dir m) # rest) =
     (case load_workspace_metadata m of
        Some info \<Rightarrow> if workspace_id info = wid then Some info else get_workspace wid rest
      | None \<Rightarrow> get_workspace wid rest)"

fun scan_workspaces :: "string option \<Rightarrow> store \<Rightarrow> workspace_info list" where
  \<comment> \<open>the loop of \<^verbatim>\<open>list_workspaces\<close>\<close>
  "scan_workspaces st [] = []"
| "scan_workspaces st ((p, File) # rest) = scan_workspaces st rest"
| "scan_workspaces st ((p, Dir m) # rest) =
     (case load_workspace_metadata m of
        Some info \<Rightarrow>
          if st = None \<or> Some (status info) = st then info # scan_workspaces st rest
          else scan_workspaces st rest
      | None \<Rightarrow> scan_workspaces st rest)"

definition sort_newest_first :: "workspace_info list \<Rightarrow> workspace_info list" where
  \<comment> \<open>\<^verbatim>\<open>workspaces.sort(key=lambda w: w.created_at, reverse=True)\<close>: a stable sort by
     descending key, equal keys staying in their original order\<close>
  "sort_newest_first ws = rev (sort_key created_at (rev ws))"

definition slice_to :: "int \<Rightarrow> 'a list \<Rightarrow> 'a list" where
  \<comment> \<open>\<^verbatim>\<open>xs[:limit]\<close>; a negative limit counts from the end\<close>
  "slice_to limit xs =
     (if 0 \<le> limit then take (nat limit) xs else take (length xs - nat (- limit)) xs)"

definition list_workspaces :: "string option \<Rightarrow> int \<Rightarrow> store \<Rightarrow> workspace_info list" where
  "list_workspaces st limit fs = slice_to limit (sort_newest_first (scan_workspaces st fs))"

definition update_workspace ::
  "string \<Rightarrow> string option \<Rightarrow> string option \<Rightarrow> string option \<Rightarrow> (string \<rightharpoonup> pyval) option \<Rightarrow> store
     \<Rightarrow> (py_exn + workspace_info option) \<times> store" where
  \<comment> \<open>the four assignments \<^verbatim>\<open>if status: info.status = status\<close> ... \<^verbatim>\<open>if metadata:
     info.metadata.update(metadata)\<close>, one per field, then the save\<close>
  "update_workspace wid st jid sp md fs =
     (case get_workspace wid fs of
        None \<Rightarrow> (Inr None, fs)
      | Some info \<Rightarrow>
          (let info' =
                 info\<lparr>status := (case st of Some s \<Rightarrow> if s \<noteq> [] then s else status info
                                  | None \<Rightarrow> status info),
                       job_id := (case jid of Some j \<Rightarrow> if j \<noteq> [] then Some j else job_id info
                                  | None \<Rightarrow> job_id info),
                       script_path := (case sp of
                                         Some s \<Rightarrow> if s \<noteq> [] then Some s else script_path info
                                       | None \<Rightarrow> script_path info),
                       metadata := (case md of
                                      Some m \<Rightarrow> if m \<noteq> Map.empty then metadata info ++ m
                                                else metadata info
                                    | None \<Rightarrow> metadata info)\<rparr>
           in case save_workspace_metadata info' fs of
                Inl e \<Rightarrow> (Inl e, fs)
              | Inr fs' \<Rightarrow> (Inr (Some info'), fs')))"

definition cleanup_workspace :: "string \<Rightarrow> bool \<Rightarrow> store \<Rightarrow> (py_exn + bool) \<times> store" where
  "cleanup_workspace wid force fs =
     (case get_workspace wid fs of
        None \<Rightarrow> (Inr False, fs)
      | Some info \<Rightarrow>
          if \<not> force \<and> (status info = ''active'' \<or> status info = ''submitted'') then (Inr False, fs)
          else (case map_of fs (path info) of
                  None \<Rightarrow> (Inr False, fs)
                | Some File \<Rightarrow> (Inl (NotADirectoryError (path info)), fs)
                | Some (Dir m) \<Rightarrow> (Inr True, AList.delete (path info) fs)))"



section \<open>Tool responses\<close>

text \<open>
  Every tool returns a Python dictionary: an association list from keys to values, in the
  order the source writes the keys. \<open>RTraceback\<close> stands for the text
  \<^verbatim>\<open>traceback.format_exc()\<close> returns.
\<close>

datatype rvalue =
    RNone
  | RStr string
  | RInt int
  | RBool bool
  | RMeta "string \<rightharpoonup> pyval"
  | RList "rvalue list"
  | RDict "(string \<times> rvalue) list"
  | RTraceback

type_synonym response = "(string \<times> rvalue) list"

definition ropt :: "string option \<Rightarrow> rvalue" where
  "ropt x = (case x of None \<Rightarrow> RNone | Some s \<Rightarrow> RStr s)"

definition status_of :: "response \<Rightarrow> rvalue option" where
  "status_of r = map_of r ''status''"

definition error_of :: "response \<Rightarrow> rvalue option" where
  "error_of r = map_of r ''error''"

definition STATUS_DISCRIMINATORS :: "string list" where
  \<comment> \<open>the fixed set of the specification (section 7)\<close>
  "STATUS_DISCRIMINATORS =
     [''created'', ''submitted'', ''deleted'', ''held'', ''released'', ''removed'', ''not_removed'',
      ''failed'', ''not_found'', ''success'']"

definition has_discriminator :: "response \<Rightarrow> bool" where
  "has_discriminator r \<longleftrightarrow>
     (case status_of r of Some (RStr s) \<Rightarrow> s \<in> set STATUS_DISCRIMINATORS | _ \<Rightarrow> False)"

section \<open>Workspace tools (core/workspace_tools.py)\<close>

definition create_job_workspace ::
  "workspace_manager \<Rightarrow> datetime \<Rightarrow> string \<Rightarrow> string \<Rightarrow> string option \<Rightarrow> store
     \<Rightarrow> (py_exn + response) \<times> store" where
  "create_job_workspace mgr timestamp wid jname description fs =
     (let md = (case description of
                  Some d \<Rightarrow> if d \<noteq> [] then [''description'' \<mapsto> PStr d] else Map.empty
                | None \<Rightarrow> Map.empty)
      in case create_workspace mgr timestamp wid jname (Some md) fs of
           (Inr info, fs') \<Rightarrow>
             (Inr [(''workspace_id'', RStr (workspace_id info)), (''path'', RStr (path info)),
                   (''job_name'', RStr (job_name info)), (''created_at'', RStr (created_at info)),
                   (''system'', RStr (system info)), (''status'', RStr ''created'')], fs')
         | (Inl e, fs') \<Rightarrow>
             if is_OSError e then
               (Inr [(''error'', RStr (exn_str e)), (''status'', RStr ''failed'')], fs')
             else (Inl e, fs'))"

definition get_workspace_info :: "string \<Rightarrow> store \<Rightarrow> response" where
  "get_workspace_info wid fs =
     (case get_workspace wid fs of
        None \<Rightarrow>
          [(''error'', RStr (''Workspace '' @ wid @ '' not found'')), (''status'', RStr ''not_found'')]
      | Some info \<Rightarrow>
          [(''workspace_id'', RStr (workspace_id info)), (''path'', RStr (path info)),
           (''job_name'', RStr (job_name info)), (''created_at'', RStr (created_at info)),
           (''system'', RStr (system info)), (''status'', RStr (status info)),
           (''job_id'', ropt (job_id info)), (''script_path'', ropt (script_path info)),
           (''metadata'', RMeta (metadata info))])"

definition list_workspaces_tool ::
  "workspace_manager \<Rightarrow> string option \<Rightarrow> int \<Rightarrow> store \<Rightarrow> response" where
  "list_workspaces_tool mgr st limit fs =
     (let workspaces = list_workspaces st limit fs
      in [(''workspaces'',
             RList (map (\<lambda>w. RDict [(''workspace_id'', RStr (workspace_id w)), (''path'', RStr (path w)),
                                      (''job_name'', RStr (job_name w)),
                                      (''created_at'', RStr (created_at w)),
                                      (''status'', RStr (status w)), (''job_id'', ropt (job_id w))])
                        workspaces)),
          (''count'', RInt (int (length workspaces))),
          (''base_path'', RStr (base_path mgr))])"

definition cleanup_workspace_tool :: "string \<Rightarrow> bool \<Rightarrow> store \<Rightarrow> (py_exn + response) \<times> store" where
  "cleanup_workspace_tool wid force fs =
     (case get_workspace wid fs of
        None \<Rightarrow>
          (Inr [(''error'', RStr (''Workspace '' @ wid @ '' not found'')),
                (''status'', RStr ''not_found'')], fs)
      | Some info \<Rightarrow>
          (case cleanup_workspace wid force fs of
             (Inl e, fs') \<Rightarrow> (Inl e, fs')
           | (Inr True, fs') \<Rightarrow>
               (Inr [(''workspace_id'', RStr wid), (''path'', RStr (path info)),
                     (''status'', RStr ''removed'')], fs')
           | (Inr False, fs') \<Rightarrow>
               (Inr [(''workspace_id'', RStr wid), (''path'', RStr (path info)),
                     (''current_status'', RStr (status info)), (''status'', RStr ''not_removed''),
                     (''message'',
                        RStr ''Workspace has active/submitted job. Use force=True to remove anyway.'')],
                fs')))"

section \<open>The scheduler clients (core/mock_pbs_client.py, core/pbs_client.py)\<close>

record job_info =
  name :: string
  attrs :: "(string \<times> string) list"

text \<open>
  The attribute mapping \<^verbatim>\<open>submit\<close> receives: each of its three keys is present or not
  (\<open>None\<close>). An empty mapping and \<^verbatim>\<open>None\<close> are treated alike by the simulated client.
\<close>

record submit_attrs =
  Account_Name :: "string option"
  Job_Name :: "string option"
  Resource_List :: "(string \<times> string) list option"

record mock_pbs_client =
  server :: string
  connected :: bool
  jobs :: "(string \<times> job_info) list"
  job_counter :: nat

definition MockPBSClient :: "string option \<Rightarrow> mock_pbs_client" where
  "MockPBSClient srv =
     \<lparr>server = (case srv of Some s \<Rightarrow> if s \<noteq> [] then s else ''mock-pbs-server''
                           | None \<Rightarrow> ''mock-pbs-server''),
      connected = False, jobs = [], job_counter = 1000\<rparr>"

definition mock_connect :: "mock_pbs_client \<Rightarrow> mock_pbs_client" where
  "mock_connect c = c\<lparr>connected := True\<rparr>"

definition mock_disconnect :: "mock_pbs_client \<Rightarrow> mock_pbs_client" where
  "mock_disconnect c = c\<lparr>connected := False\<rparr>"

definition mock_stat_jobs :: "mock_pbs_client \<Rightarrow> string option \<Rightarrow> job_info list" where
  "mock_stat_jobs c jid =
     (case jid of
        Some j \<Rightarrow>
          if j \<noteq> [] then (case map_of (jobs c) j of Some job \<Rightarrow> [job] | None \<Rightarrow> [])
          else map snd (jobs c)
      | None \<Rightarrow> map snd (jobs c))"

definition mock_select_jobs :: "mock_pbs_client \<Rightarrow> (string \<times> string) list \<Rightarrow> job_info list" where
  "mock_select_jobs c criteria =
     filter (\<lambda>job. list_all (\<lambda>(k, v). map_of (attrs job) k = Some v) criteria) (map snd (jobs c))"

definition mock_submit ::
  "mock_pbs_client \<Rightarrow> datetime \<Rightarrow> string \<Rightarrow> string option \<Rightarrow> submit_attrs option
     \<Rightarrow> string \<times> mock_pbs_client" where
  "mock_submit c now sp queue sattrs =
     (let jid = str_nat (job_counter c) @ ''.'' @ server c;
          c1 = c\<lparr>job_counter := job_counter c + 1\<rparr>;
          job_attrs =
            [(''Job_Name'', (case sattrs of
                               Some a \<Rightarrow> (case Job_Name a of Some n \<Rightarrow> n | None \<Rightarrow> ''mock_job'')
                             | None \<Rightarrow> ''mock_job'')),
             (''job_state'', ''Q''),
             (''queue'', (case queue of Some q \<Rightarrow> if q \<noteq> [] then q else ''workq''
                                      | None \<Rightarrow> ''workq'')),
             (''ctime'', isoformat now),
             (''Job_Owner'', ''mockuser@localhost'')];
          job_attrs1 =
            (case sattrs of
               Some a \<Rightarrow> (case Account_Name a of
                            Some acc \<Rightarrow> AList.update ''Account_Name'' acc job_attrs
                          | None \<Rightarrow> job_attrs)
             | None \<Rightarrow> job_attrs);
          job_attrs2 =
            (case sattrs of
               Some a \<Rightarrow> (case Resource_List a of
                            Some rl \<Rightarrow>
                              fold (\<lambda>(k, v). AList.update (''Resource_List.'' @ k) v) rl job_attrs1
                          | None \<Rightarrow> job_attrs1)
             | None \<Rightarrow> job_attrs1)
      in (jid, c1\<lparr>jobs := AList.update jid \<lparr>name = jid, attrs = job_attrs2\<rparr> (jobs c1)\<rparr>))"

definition mock_delete_job :: "mock_pbs_client \<Rightarrow> string \<Rightarrow> bool \<Rightarrow> mock_pbs_client" where
  "mock_delete_job c jid force =
     (case map_of (jobs c) jid of
        Some job \<Rightarrow> c\<lparr>jobs := AList.delete jid (jobs c)\<rparr>
      | None \<Rightarrow> c)"

definition mock_set_state :: "mock_pbs_client \<Rightarrow> string \<Rightarrow> string \<Rightarrow> mock_pbs_client" where
  \<comment> \<open>\<^verbatim>\<open>if job_id in self._jobs: self._jobs[job_id].attrs["job_state"] = state\<close>\<close>
  "mock_set_state c jid state =
     (case map_of (jobs c) jid of
        Some job \<Rightarrow>
          c\<lparr>jobs := AList.update jid (job\<lparr>attrs := AList.update ''job_state'' state (attrs job)\<rparr>)
                      (jobs c)\<rparr>
      | None \<Rightarrow> c)"

definition mock_hold_job :: "mock_pbs_client \<Rightarrow> string \<Rightarrow> mock_pbs_client" where
  "mock_hold_job c jid = mock_set_state c jid ''H''"

definition mock_release_job :: "mock_pbs_client \<Rightarrow> string \<Rightarrow> mock_pbs_client" where
  "mock_release_job c jid = mock_set_state c jid ''Q''"

text \<open>
  The real client is the external \<^verbatim>\<open>pbs_api\<close> package. It is a parameter of the model:
  for each call it says whether the call returns (and what) or raises \<^verbatim>\<open>PBSException\<close>
  with a message. Nothing else is assumed of it.
\<close>

record real_pbs =
  real_connect :: "string \<Rightarrow> string option"
  real_submit :: "string \<Rightarrow> string \<Rightarrow> submit_attrs \<Rightarrow> string + string"
  real_stat_jobs :: "string option \<Rightarrow> string + job_info list"
  real_select_jobs :: "(string \<times> string) list \<Rightarrow> string + job_info list"
  real_delete_job :: "string \<Rightarrow> bool \<Rightarrow> string option"
  real_hold_job :: "string \<Rightarrow> string option"
  real_release_job :: "string \<Rightarrow> string option"

text \<open>
  Which client class the module holds after import: the simulated one (mock mode), the real
  one, or none (\<^verbatim>\<open>PBSClient = None\<close>: no \<^verbatim>\<open>pbs_api\<close> and no mock mode).
\<close>

datatype pbs_backend = Mock_backend | Real_backend real_pbs | No_backend

datatype pbs_client = Mock_client mock_pbs_client | Real_client real_pbs

record system_config =
  sys_name :: string
  display_name :: string
  pbs_server :: string
  queues :: "string list"

definition get_default_queue :: "system_config \<Rightarrow> string option" where
  \<comment> \<open>the name of the default queue: \<^verbatim>\<open>debug\<close> if configured, else the first queue\<close>
  "get_default_queue cfg =
     (if ''debug'' \<in> set (queues cfg) then Some ''debug''
      else (case queues cfg of [] \<Rightarrow> None | q # _ \<Rightarrow> Some q))"

text \<open>
  The state the tools act on: the workspace store and the log of every call made on a
  scheduler client, the construction of the client (\<open>Connect\<close>) included. A scheduler
  client lives for one \<^verbatim>\<open>with get_pbs_client(...)\<close> block only: the simulated client, and
  with it its job table and job counter, is created anew by each block.
\<close>

datatype pbs_call =
    Connect string
  | Submit string string submit_attrs
  | Stat_jobs "string option"
  | Select_jobs "(string \<times> string) list"
  | Delete_job string bool
  | Hold_job string
  | Release_job string

record world =
  files :: store
  sched_log :: "pbs_call list"

record env =
  config :: system_config
  backend :: pbs_backend
  manager :: "workspace_manager option"

definition log_call :: "pbs_call \<Rightarrow> world \<Rightarrow> world" where
  "log_call c w = w\<lparr>sched_log := sched_log w @ [c]\<rparr>"

definition pbs_not_available :: string where
  "pbs_not_available =
     ''PBS client not available. Either run on an HPC login node or ''
     @ ''set BOREALIS_MOCK_PBS=1 for local development.''"

fun wrap_connection_error :: "env \<Rightarrow> py_exn + 'a \<Rightarrow> py_exn + 'a" where
  \<comment> \<open>\<^verbatim>\<open>except PBSException as e: raise PBSConnectionError(...) from e\<close> around the
     \<^verbatim>\<open>yield\<close>: it also catches what the body of the \<^verbatim>\<open>with\<close> block raises\<close>
  "wrap_connection_error ev (Inl (PBSException m)) =
     Inl (PBSConnectionError (pbs_server (config ev)) (display_name (config ev)) m)"
| "wrap_connection_error ev r = r"

definition get_pbs_client ::
  "env \<Rightarrow> (pbs_client \<Rightarrow> world \<Rightarrow> (py_exn + 'a) \<times> world) \<Rightarrow> world \<Rightarrow> (py_exn + 'a) \<times> world" where
  \<comment> \<open>\<^verbatim>\<open>with get_pbs_client(system_config) as pbs: body\<close>\<close>
  "get_pbs_client ev body w =
     (case backend ev of
        No_backend \<Rightarrow> (Inl (RuntimeError pbs_not_available), w)
      | Mock_backend \<Rightarrow>
          (let client = mock_connect (MockPBSClient (Some (pbs_server (config ev))))
           in case body (Mock_client client) (log_call (Connect (server client)) w) of
                (r, w') \<Rightarrow> (wrap_connection_error ev r, w'))
      | Real_backend rp \<Rightarrow>
          (let w1 = log_call (Connect (pbs_server (config ev))) w
           in case real_connect rp (pbs_server (config ev)) of
                Some m \<Rightarrow>
                  (Inl (PBSConnectionError (pbs_server (config ev)) (display_name (config ev)) m), w1)
              | None \<Rightarrow>
                  (case body (Real_client rp) w1 of (r, w') \<Rightarrow> (wrap_connection_error ev r, w'))))"

fun raise_pbs :: "string + 'a \<Rightarrow> py_exn + 'a" where
  "raise_pbs (Inl m) = Inl (PBSException m)"
| "raise_pbs (Inr x) = Inr x"

fun raise_pbs_opt :: "string option \<Rightarrow> py_exn + unit" where
  "raise_pbs_opt (Some m) = Inl (PBSException m)"
| "raise_pbs_opt None = Inr ()"

fun client_submit ::
  "pbs_client \<Rightarrow> datetime \<Rightarrow> string \<Rightarrow> string \<Rightarrow> submit_attrs \<Rightarrow> py_exn + string" where
  "client_submit (Mock_client c) now sp q a = Inr (fst (mock_submit c now sp (Some q) (Some a)))"
| "client_submit (Real_client rp) now sp q a = raise_pbs (real_submit rp sp q a)"

fun client_stat_jobs :: "pbs_client \<Rightarrow> string option \<Rightarrow> py_exn + job_info list" where
  "client_stat_jobs (Mock_client c) jid = Inr (mock_stat_jobs c jid)"
| "client_stat_jobs (Real_client rp) jid = raise_pbs (real_stat_jobs rp jid)"

fun client_select_jobs :: "pbs_client \<Rightarrow> (string \<times> string) list \<Rightarrow> py_exn + job_info list" where
  "client_select_jobs (Mock_client c) crit = Inr (mock_select_jobs c crit)"
| "client_select_jobs (Real_client rp) crit = raise_pbs (real_select_jobs rp crit)"

fun client_delete_job :: "pbs_client \<Rightarrow> string \<Rightarrow> bool \<Rightarrow> (py_exn + unit) \<times> pbs_client" where
  "client_delete_job (Mock_client c) jid force = (Inr (), Mock_client (mock_delete_job c jid force))"
| "client_delete_job (Real_client rp) jid force =
     (raise_pbs_opt (real_delete_job rp jid force), Real_client rp)"

fun client_hold_job :: "pbs_client \<Rightarrow> string \<Rightarrow> (py_exn + unit) \<times> pbs_client" where
  "client_hold_job (Mock_client c) jid = (Inr (), Mock_client (mock_hold_job c jid))"
| "client_hold_job (Real_client rp) jid = (raise_pbs_opt (real_hold_job rp jid), Real_client rp)"

fun client_release_job :: "pbs_client \<Rightarrow> string \<Rightarrow> (py_exn + unit) \<times> pbs_client" where
  "client_release_job (Mock_client c) jid = (Inr (), Mock_client (mock_release_job c jid))"
| "client_release_job (Real_client rp) jid =
     (raise_pbs_opt (real_release_job rp jid), Real_client rp)"

section \<open>Output formatting (utils/formatting.py)\<close>

definition JOB_STATES :: "(string \<times> string) list" where
  "JOB_STATES =
     [(''Q'', ''Queued''), (''R'', ''Running''), (''H'', ''Held''), (''E'', ''Exiting''),
      (''F'', ''Finished''), (''S'', ''Suspended''), (''W'', ''Waiting''), (''T'', ''Transiting''),
      (''B'', ''Array job running''), (''X'', ''Subjob completed'')]"

definition startswith :: "string \<Rightarrow> string \<Rightarrow> bool" where
  "startswith s p \<longleftrightarrow> take (length p) s = p"

definition after_first_dot :: "string \<Rightarrow> string" where
  \<comment> \<open>\<^verbatim>\<open>key.split(".", 1)[1]\<close> for a key that holds a dot\<close>
  "after_first_dot k = drop (Suc (length (takeWhile (\<lambda>c. c \<noteq> CHR ''.'') k))) k"

definition split_resources ::
  "(string \<times> string) list \<Rightarrow> (string \<times> string) list \<times> (string \<times> string) list" where
  \<comment> \<open>the loop of \<^verbatim>\<open>format_job_status\<close>: (\<^verbatim>\<open>resource_list\<close>, \<^verbatim>\<open>resources_used\<close>)\<close>
  "split_resources kvs =
     fold (\<lambda>(k, v) (rl, ru).
             if startswith k ''Resource_List.'' then (AList.update (after_first_dot k) v rl, ru)
             else if startswith k ''resources_used.'' then (rl, AList.update (after_first_dot k) v ru)
             else (rl, ru))
          kvs ([], [])"

definition format_job_status :: "job_info \<Rightarrow> response" where
  "format_job_status job =
     (let (resource_list, resources_used) = split_resources (attrs job);
          state_code = (case map_of (attrs job) ''job_state'' of Some c \<Rightarrow> c | None \<Rightarrow> []);
          state_desc = (case map_of JOB_STATES state_code of Some d \<Rightarrow> d | None \<Rightarrow> state_code)
      in [(''job_id'', RStr (name job)),
          (''name'', ropt (map_of (attrs job) ''Job_Name'')),
          (''state'', RStr state_code),
          (''state_description'', RStr state_desc),
          (''queue'', ropt (map_of (attrs job) ''queue'')),
          (''account'', ropt (map_of (attrs job) ''Account_Name'')),
          (''owner'', ropt (map_of (attrs job) ''Job_Owner'')),
          (''walltime'', RDict [(''requested'', ropt (map_of resource_list ''walltime'')),
                                (''used'', ropt (map_of resources_used ''walltime''))]),
          (''nodes'', RDict [(''requested'', ropt (map_of resource_list ''select'')),
                             (''assigned'', ropt (map_of (attrs job) ''exec_host''))]),
          (''created'', ropt (map_of (attrs job) ''ctime'')),
          (''started'', ropt (map_of (attrs job) ''stime'')),
          (''exit_status'', ropt (map_of (attrs job) ''Exit_status''))])"

definition format_job_list :: "job_info list \<Rightarrow> rvalue list" where
  "format_job_list js = map (\<lambda>job. RDict (format_job_status job)) js"

section \<open>Job tools (core/pbs_tools.py)\<close>

definition failed :: "string \<Rightarrow> response" where
  "failed m = [(''error'', RStr m), (''status'', RStr ''failed'')]"

fun except_with_status :: "py_exn + response \<Rightarrow> py_exn + response" where
  \<comment> \<open>the handlers of \<^verbatim>\<open>submit_pbs_job\<close>, \<^verbatim>\<open>delete_job\<close>, \<^verbatim>\<open>hold_job\<close> and
     \<^verbatim>\<open>release_job\<close>: \<^verbatim>\<open>except PBSException\<close>, then \<^verbatim>\<open>except RuntimeError\<close>; any
     other exception leaves the tool\<close>
  "except_with_status (Inl (PBSException m)) = Inr (failed m)"
| "except_with_status (Inl (RuntimeError m)) =
     Inr [(''error'', RStr m), (''traceback'', RTraceback), (''status'', RStr ''failed'')]"
| "except_with_status r = r"

fun except_plain :: "py_exn + response \<Rightarrow> py_exn + response" where
  \<comment> \<open>the handlers of \<^verbatim>\<open>get_job_status\<close> and \<^verbatim>\<open>list_jobs\<close>\<close>
  "except_plain (Inl (PBSException m)) = Inr [(''error'', RStr m)]"
| "except_plain (Inl (RuntimeError m)) = Inr [(''error'', RStr m), (''traceback'', RTraceback)]"
| "except_plain r = r"

text \<open>
  \<^verbatim>\<open>submit_pbs_job\<close>, lines 75 to 99: the script path is taken from the workspace when a
  workspace id and a workspace manager are given, and the node count of the workspace's
  metadata becomes the select specification if none was passed. The result is an early
  response, or the workspace record (if any), the script path and the select specification.
\<close>

definition submit_resolve ::
  "env \<Rightarrow> string option \<Rightarrow> string option \<Rightarrow> string option \<Rightarrow> store
     \<Rightarrow> response + (workspace_info option \<times> string \<times> string option)" where
  "submit_resolve ev sp wid select_spec fs =
     (case (wid, manager ev) of
        (Some i, Some mgr) \<Rightarrow>
          if i \<noteq> [] then
            (case get_workspace i fs of
               None \<Rightarrow> Inl (failed (''Workspace '' @ i @ '' not found''))
             | Some info \<Rightarrow>
                 (case script_path info of
                    None \<Rightarrow> Inl (failed (''Workspace '' @ i @ '' has no submit script''))
                  | Some p \<Rightarrow>
                      if p = [] then Inl (failed (''Workspace '' @ i @ '' has no submit script''))
                      else Inr (Some info, p,
                             (if \<not> nonempty select_spec \<and> metadata info \<noteq> Map.empty then
                                (case metadata info ''num_nodes'' of
                                   Some v \<Rightarrow> if truthy v then Some (py_str v) else select_spec
                                 | None \<Rightarrow> select_spec)
                              else select_spec))))
          else (case sp of
                  Some p \<Rightarrow>
                    if p \<noteq> [] then Inr (None, p, select_spec)
                    else Inl (failed ''Either script_path or workspace_id must be provided'')
                | None \<Rightarrow> Inl (failed ''Either script_path or workspace_id must be provided''))
      | _ \<Rightarrow>
          (case sp of
             Some p \<Rightarrow>
               if p \<noteq> [] then Inr (None, p, select_spec)
               else Inl (failed ''Either script_path or workspace_id must be provided'')
           | None \<Rightarrow> Inl (failed ''Either script_path or workspace_id must be provided'')))"

definition submit_validate ::
  "string \<Rightarrow> string option \<Rightarrow> string option \<Rightarrow> response + string" where
  \<comment> \<open>lines 100 to 117: the account, then the optional walltime and file systems\<close>
  "submit_validate account walltime filesystems =
     (case validate_account (Some account) of
        Inl e \<Rightarrow> Inl (failed (exn_str e))
      | Inr acc \<Rightarrow>
          (case (if nonempty walltime then validate_walltime (the walltime) else Inr ()) of
             Inl e \<Rightarrow> Inl (failed (exn_str e))
           | Inr _ \<Rightarrow>
               (case (if nonempty filesystems then validate_filesystems (the filesystems)
                      else Inr ()) of
                  Inl e \<Rightarrow> Inl (failed (exn_str e))
                | Inr _ \<Rightarrow> Inr acc)))"

definition submit_build_attrs ::
  "string \<Rightarrow> string option \<Rightarrow> string option \<Rightarrow> string option \<Rightarrow> string option \<Rightarrow> submit_attrs" where
  \<comment> \<open>lines 119 to 134\<close>
  "submit_build_attrs acc jname select_spec walltime filesystems =
     (let resource_list =
            (if nonempty select_spec then [(''select'', the select_spec), (''place'', ''scatter'')]
             else [])
            @ (if nonempty walltime then [(''walltime'', the walltime)] else [])
            @ (if nonempty filesystems then [(''filesystems'', the filesystems)] else [])
      in \<lparr>Account_Name = Some acc,
          Job_Name = (if nonempty jname then jname else None),
          Resource_List = (if resource_list \<noteq> [] then Some resource_list else None)\<rparr>)"

text \<open>
  Each tool that talks to the scheduler does so inside one
  \<^verbatim>\<open>with get_pbs_client(system_config) as pbs:\<close> block; the block's body is a function of
  the client and the world, named \<open>..._body\<close> below.
\<close>

definition submit_body ::
  "env \<Rightarrow> datetime \<Rightarrow> workspace_info option \<Rightarrow> string \<Rightarrow> string \<Rightarrow> submit_attrs \<Rightarrow> pbs_client \<Rightarrow> world
     \<Rightarrow> (py_exn + response) \<times> world" where
  \<comment> \<open>lines 143 to 163\<close>
  "submit_body ev now workspace_info spath q sattrs pbs w1 =
     (case client_submit pbs now spath q sattrs of
        Inl e \<Rightarrow> (Inl e, log_call (Submit spath q sattrs) w1)
      | Inr jid \<Rightarrow>
          (let w2 = log_call (Submit spath q sattrs) w1
           in case (case (workspace_info, manager ev) of
                      (Some info, Some mgr) \<Rightarrow>
                        update_workspace (workspace_id info) (Some ''submitted'') (Some jid) None None
                          (files w2)
                    | _ \<Rightarrow> (Inr None, files w2)) of
                (Inl e, fs') \<Rightarrow> (Inl e, w2\<lparr>files := fs'\<rparr>)
              | (Inr _, fs') \<Rightarrow>
                  (Inr ([(''job_id'', RStr jid), (''queue'', RStr q),
                         (''status'', RStr ''submitted''),
                         (''system'', RStr (display_name (config ev)))]
                        @ (case workspace_info of
                             Some info \<Rightarrow>
                               [(''workspace_id'', RStr (workspace_id info)),
                                (''workspace_path'', RStr (path info))]
                           | None \<Rightarrow> [])),
                   w2\<lparr>files := fs'\<rparr>)))"

definition submit_pbs_job ::
  "env \<Rightarrow> datetime \<Rightarrow> string option \<Rightarrow> string option \<Rightarrow> string option \<Rightarrow> string option \<Rightarrow> string
     \<Rightarrow> string option \<Rightarrow> string option \<Rightarrow> string option \<Rightarrow> world \<Rightarrow> (py_exn + response) \<times> world" where
  \<comment> \<open>\<open>now\<close> is the clock the simulated client reads for the job's creation time\<close>
  "submit_pbs_job ev now sp wid queue jname account select_spec walltime filesystems w =
     (case submit_resolve ev sp wid select_spec (files w) of
        Inl early \<Rightarrow> (Inr early, w)
      | Inr (workspace_info, spath, sel) \<Rightarrow>
          (case submit_validate account walltime filesystems of
             Inl early \<Rightarrow> (Inr early, w)
           | Inr acc \<Rightarrow>
               (let sattrs = submit_build_attrs acc jname sel walltime filesystems;
                    q = (if nonempty queue then the queue
                         else (case get_default_queue (config ev) of
                                 Some d \<Rightarrow> d | None \<Rightarrow> ''workq''))
                in case get_pbs_client ev (submit_body ev now workspace_info spath q sattrs) w of
                     (r, w') \<Rightarrow> (except_with_status r, w'))))"

definition get_job_status_body ::
  "string \<Rightarrow> pbs_client \<Rightarrow> world \<Rightarrow> (py_exn + response) \<times> world" where
  "get_job_status_body jid pbs w1 =
     (case client_stat_jobs pbs (Some jid) of
        Inl e \<Rightarrow> (Inl e, log_call (Stat_jobs (Some jid)) w1)
      | Inr js \<Rightarrow>
          (case js of
             [] \<Rightarrow> (Inr [(''error'', RStr (''Job '' @ jid @ '' not found''))],
                    log_call (Stat_jobs (Some jid)) w1)
           | job # _ \<Rightarrow> (Inr (format_job_status job), log_call (Stat_jobs (Some jid)) w1)))"

definition get_job_status :: "env \<Rightarrow> string \<Rightarrow> world \<Rightarrow> (py_exn + response) \<times> world" where
  "get_job_status ev jid w =
     (case validate_job_id jid of
        Inl e \<Rightarrow> (Inr [(''error'', RStr (exn_str e))], w)
      | Inr _ \<Rightarrow>
          (case get_pbs_client ev (get_job_status_body jid) w of
             (r, w') \<Rightarrow> (except_plain r, w')))"

definition job_summary :: "job_info list \<Rightarrow> (string \<times> nat) list" where
  \<comment> \<open>the loop \<^verbatim>\<open>summary[s] = summary.get(s, 0) + 1\<close>\<close>
  "job_summary js =
     fold (\<lambda>job summary.
             (let s = (case map_of (attrs job) ''job_state'' of Some c \<Rightarrow> c | None \<Rightarrow> ''unknown'')
              in AList.update s ((case map_of summary s of Some n \<Rightarrow> n | None \<Rightarrow> 0) + 1) summary))
          js []"

definition list_jobs_body ::
  "env \<Rightarrow> string option \<Rightarrow> string option \<Rightarrow> pbs_client \<Rightarrow> world \<Rightarrow> (py_exn + response) \<times> world" where
  "list_jobs_body ev state queue pbs w1 =
     (let call = (if nonempty state then Select_jobs [(''job_state'', the state)]
                  else Stat_jobs None);
          w2 = log_call call w1
      in case (if nonempty state then client_select_jobs pbs [(''job_state'', the state)]
               else client_stat_jobs pbs None) of
           Inl e \<Rightarrow> (Inl e, w2)
         | Inr js0 \<Rightarrow>
             (let js = (if nonempty queue
                        then filter (\<lambda>j. map_of (attrs j) ''queue'' = queue) js0
                        else js0)
              in (Inr [(''jobs'', RList (format_job_list js)),
                       (''total'', RInt (int (length js))),
                       (''summary'', RDict (map (\<lambda>(s, n). (s, RInt (int n))) (job_summary js))),
                       (''system'', RStr (display_name (config ev)))],
                  w2)))"

definition list_jobs ::
  "env \<Rightarrow> string option \<Rightarrow> string option \<Rightarrow> world \<Rightarrow> (py_exn + response) \<times> world" where
  "list_jobs ev state queue w =
     (case get_pbs_client ev (list_jobs_body ev state queue) w of
        (r, w') \<Rightarrow> (except_plain r, w'))"

definition delete_job_body ::
  "string \<Rightarrow> bool \<Rightarrow> pbs_client \<Rightarrow> world \<Rightarrow> (py_exn + response) \<times> world" where
  "delete_job_body jid force pbs w1 =
     (case fst (client_delete_job pbs jid force) of
        Inl e \<Rightarrow> (Inl e, log_call (Delete_job jid force) w1)
      | Inr _ \<Rightarrow> (Inr [(''job_id'', RStr jid), (''status'', RStr ''deleted'')],
                  log_call (Delete_job jid force) w1))"

definition delete_job :: "env \<Rightarrow> string \<Rightarrow> bool \<Rightarrow> world \<Rightarrow> (py_exn + response) \<times> world" where
  "delete_job ev jid force w =
     (case validate_job_id jid of
        Inl e \<Rightarrow> (Inr (failed (exn_str e)), w)
      | Inr _ \<Rightarrow>
          (case get_pbs_client ev (delete_job_body jid force) w of
             (r, w') \<Rightarrow> (except_with_status r, w')))"

definition hold_job_body :: "string \<Rightarrow> pbs_client \<Rightarrow> world \<Rightarrow> (py_exn + response) \<times> world" where
  "hold_job_body jid pbs w1 =
     (case fst (client_hold_job pbs jid) of
        Inl e \<Rightarrow> (Inl e, log_call (Hold_job jid) w1)
      | Inr _ \<Rightarrow> (Inr [(''job_id'', RStr jid), (''status'', RStr ''held'')],
                  log_call (Hold_job jid) w1))"

definition hold_job :: "env \<Rightarrow> string \<Rightarrow> world \<Rightarrow> (py_exn + response) \<times> world" where
  "hold_job ev jid w =
     (case validate_job_id jid of
        Inl e \<Rightarrow> (Inr (failed (exn_str e)), w)
      | Inr _ \<Rightarrow>
          (case get_pbs_client ev (hold_job_body jid) w of
             (r, w') \<Rightarrow> (except_with_status r, w')))"

definition release_job_body :: "string \<Rightarrow> pbs_client \<Rightarrow> world \<Rightarrow> (py_exn + response) \<times> world" where
  "release_job_body jid pbs w1 =
     (case fst (client_release_job pbs jid) of
        Inl e \<Rightarrow> (Inl e, log_call (Release_job jid) w1)
      | Inr _ \<Rightarrow> (Inr [(''job_id'', RStr jid), (''status'', RStr ''released'')],
                  log_call (Release_job jid) w1))"

definition release_job :: "env \<Rightarrow> string \<Rightarrow> world \<Rightarrow> (py_exn + response) \<times> world" where
  "release_job ev jid w =
     (case validate_job_id jid of
        Inl e \<Rightarrow> (Inr (failed (exn_str e)), w)
      | Inr _ \<Rightarrow>
          (case get_pbs_client ev (release_job_body jid) w of
             (r, w') \<Rightarrow> (except_with_status r, w')))"

section \<open>Notions the properties are stated with\<close>

text \<open>
  The language of a pattern, as a relation between the pattern and the strings it denotes.
  \<open>matcher\<close> is the program; this is what it is measured against.
\<close>

inductive in_lang :: "rx \<Rightarrow> string \<Rightarrow> bool" where
  in_Empty: "in_lang Empty []"
| in_Chr: "cclass_match k c \<Longrightarrow> in_lang (Chr k) [c]"
| in_Cat: "in_lang r u \<Longrightarrow> in_lang s v \<Longrightarrow> in_lang (Cat r s) (u @ v)"
| in_OrL: "in_lang r u \<Longrightarrow> in_lang (Or r s) u"
| in_OrR: "in_lang s u \<Longrightarrow> in_lang (Or r s) u"
| in_Many0: "in_lang (Many r) []"
| in_ManyS: "in_lang r u \<Longrightarrow> in_lang (Many r) v \<Longrightarrow> in_lang (Many r) (u @ v)"

definition blank :: "string \<Rightarrow> bool" where
  \<comment> \<open>empty or whitespace only\<close>
  "blank s \<longleftrightarrow> list_all isspace s"

definition loaded :: "entry \<Rightarrow> workspace_info option" where
  \<comment> \<open>the workspace record an entry of the store root holds, if it is a directory whose
     metadata file loads\<close>
  "loaded e = (case e of File \<Rightarrow> None | Dir m \<Rightarrow> load_workspace_metadata m)"

text \<open>
  A store as the workspace manager leaves it: the entries of the root have distinct paths,
  every record is stored in the directory its \<open>path\<close> field names, and no two records
  share a workspace identifier (identifiers are drawn by \<^verbatim>\<open>uuid4\<close>).
\<close>

definition wf_store :: "store \<Rightarrow> bool" where
  "wf_store fs \<longleftrightarrow>
     distinct (map fst fs)
     \<and> list_all (\<lambda>(p, e). case loaded e of Some info \<Rightarrow> path info = p | None \<Rightarrow> True) fs
     \<and> distinct (map workspace_id (scan_workspaces None fs))"



definition same_second :: "datetime \<Rightarrow> datetime \<Rightarrow> bool" where
  \<comment> \<open>two clock readings within the same second: they differ at most in the microsecond\<close>
  "same_second t1 t2 \<longleftrightarrow>
     dt_year t1 = dt_year t2 \<and> dt_month t1 = dt_month t2 \<and> dt_day t1 = dt_day t2
     \<and> dt_hour t1 = dt_hour t2 \<and> dt_minute t1 = dt_minute t2 \<and> dt_second t1 = dt_second t2"

definition tagged :: "string \<Rightarrow> response \<Rightarrow> bool" where
  \<comment> \<open>the response has a status discriminator of the fixed set, and if it carries an
     \<^verbatim>\<open>error\<close> key its status is \<open>err_status\<close>\<close>
  "tagged err_status r \<longleftrightarrow>
     has_discriminator r \<and> (error_of r \<noteq> None \<longrightarrow> status_of r = Some (RStr err_status))"

section \<open>Example inputs\<close>

definition ex_cfg :: system_config where
  "ex_cfg = \<lparr>sys_name = ''aurora'', display_name = ''Aurora'', pbs_server = ''aurora-pbs-01'',
             queues = [''debug'', ''prod'']\<rparr>"

definition ex_mgr :: workspace_manager where
  "ex_mgr = \<lparr>base_path = ''/ws'', system_name = ''aurora''\<rparr>"

definition ex_env :: env where
  \<comment> \<open>mock mode, with a workspace manager\<close>
  "ex_env = \<lparr>config = ex_cfg, backend = Mock_backend, manager = Some ex_mgr\<rparr>"

definition ex_now :: datetime where
  "ex_now = \<lparr>dt_year = 2026, dt_month = 11, dt_day = 6, dt_hour = 12, dt_minute = 30,
             dt_second = 15, dt_microsecond = 250000\<rparr>"

definition ex_later :: datetime where
  \<comment> \<open>later in the same second\<close>
  "ex_later = ex_now\<lparr>dt_microsecond := 900000\<rparr>"

definition ex_info :: workspace_info where
  \<comment> \<open>a submitted workspace whose metadata is \<^verbatim>\<open>{"a": 1}\<close>\<close>
  "ex_info =
     \<lparr>workspace_id = ''0123456789ab'', path = ''/ws/hello_20261106_120000'', job_name = ''hello'',
      created_at = ''2026-11-06T12:00:00.000001'', system = ''aurora'', status = ''submitted'',
      job_id = Some ''1000.aurora-pbs-01'', script_path = Some ''/ws/hello_20261106_120000/submit.sh'',
      metadata = [''a'' \<mapsto> PInt 1]\<rparr>"

definition ex_store :: store where
  "ex_store = [(''/ws/hello_20261106_120000'', Dir (Parsed (to_dict ex_info)))]"

definition ex_world :: world where
  "ex_world = \<lparr>files = ex_store, sched_log = []\<rparr>"

definition ex_created :: workspace_info where
  \<comment> \<open>the record \<open>create_workspace\<close> returns for the job name \<^verbatim>\<open>job\<close> at \<open>ex_now\<close>\<close>
  "ex_created =
     \<lparr>workspace_id = ''ba9876543210'', path = ''/ws/job_20261106_123015'', job_name = ''job'',
      created_at = ''2026-11-06T12:30:15.250000'', system = ''aurora'', status = ''active'',
      job_id = None, script_path = None, metadata = Map.empty\<rparr>"









section \<open>Facts about the model\<close>

subsection \<open>The matcher decides the language of a pattern\<close>

inductive_simps in_lang_Never: "in_lang Never w"
inductive_simps in_lang_Empty: "in_lang Empty w"
inductive_simps in_lang_Chr: "in_lang (Chr k) w"
inductive_simps in_lang_Cat: "in_lang (Cat r s) w"
inductive_simps in_lang_Or: "in_lang (Or r s) w"

lemma nullable_in_lang: "nullable r \<longleftrightarrow> in_lang r []"
  by (induction r) (auto simp: in_lang_Never in_lang_Empty in_lang_Chr in_lang_Cat in_lang_Or intro: in_Many0)

lemma in_lang_Many_cons:
  assumes "in_lang q x" "q = Many r" "x = c # w"
  shows "\<exists>u v. w = u @ v \<and> in_lang r (c # u) \<and> in_lang (Many r) v"
  using assms
proof (induction arbitrary: w rule: in_lang.induct)
  case (in_ManyS r' u v)
  show ?case
  proof (cases u)
    case Nil
    with in_ManyS show ?thesis by simp
  next
    case (Cons a u')
    with in_ManyS.prems in_ManyS.hyps have "w = u' @ v" "in_lang r (c # u')" "in_lang (Many r) v"
      by auto
    then show ?thesis by blast
  qed
qed auto

lemma deriv_in_lang: "in_lang (deriv c r) w \<longleftrightarrow> in_lang r (c # w)"
proof (induction r arbitrary: w)
  case (Cat r s)
  show ?case
  proof
    assume "in_lang (deriv c (Cat r s)) w"
    then show "in_lang (Cat r s) (c # w)"
      using Cat
      by (auto simp: in_lang_Cat in_lang_Or nullable_in_lang split: if_splits)
         (metis append_Cons)+
  next
    assume "in_lang (Cat r s) (c # w)"
    then obtain u v where uv: "c # w = u @ v" "in_lang r u" "in_lang s v"
      by (auto simp: in_lang_Cat)
    show "in_lang (deriv c (Cat r s)) w"
    proof (cases u)
      case Nil
      with uv Cat show ?thesis by (auto simp: in_lang_Or nullable_in_lang)
    next
      case (Cons a u')
      with uv Cat have "in_lang (Cat (deriv c r) s) w" by (auto simp: in_lang_Cat)
      then show ?thesis by (auto simp: in_lang_Or)
    qed
  qed
next
  case (Many r)
  show ?case
  proof
    assume "in_lang (deriv c (Many r)) w"
    then obtain u v where "w = u @ v" "in_lang (deriv c r) u" "in_lang (Many r) v"
      by (auto simp: in_lang_Cat)
    with Many have "in_lang r (c # u)" by simp
    then have "in_lang (Many r) ((c # u) @ v)"
      using \<open>in_lang (Many r) v\<close> by (rule in_ManyS)
    with \<open>w = u @ v\<close> show "in_lang (Many r) (c # w)" by simp
  next
    assume "in_lang (Many r) (c # w)"
    from in_lang_Many_cons[OF this refl refl] obtain u v
      where "w = u @ v" "in_lang r (c # u)" "in_lang (Many r) v" by blast
    with Many show "in_lang (deriv c (Many r)) w" by (auto simp: in_lang_Cat)
  qed
qed (auto simp: in_lang_Never in_lang_Empty in_lang_Chr in_lang_Or)

lemma matcher_in_lang: "matcher r w \<longleftrightarrow> in_lang r w"
  by (induction w arbitrary: r) (simp_all add: nullable_in_lang deriv_in_lang)

lemma in_lang_Cat_Empty: "in_lang (Cat Empty s) w \<longleftrightarrow> in_lang s w"
  by (simp add: in_lang_Cat in_lang_Empty)

lemma in_lang_Cat_Never: "\<not> in_lang (Cat Never s) w"
  by (simp add: in_lang_Cat in_lang_Never)

lemma in_lang_Many_Chr: "in_lang (Many (Chr k)) w \<longleftrightarrow> list_all (cclass_match k) w"
proof (induction w)
  case Nil
  show ?case by (simp add: in_Many0)
next
  case (Cons c w)
  have "in_lang (Many (Chr k)) (c # w) \<longleftrightarrow> in_lang (deriv c (Many (Chr k))) w"
    by (rule deriv_in_lang[symmetric])
  also have "\<dots> \<longleftrightarrow> cclass_match k c \<and> in_lang (Many (Chr k)) w"
    by (simp add: in_lang_Cat_Empty in_lang_Cat_Never)
  finally show ?case using Cons by simp
qed

lemma in_lang_Cat_Chr:
  "in_lang (Cat (Chr k) s) w \<longleftrightarrow> (\<exists>c v. w = c # v \<and> cclass_match k c \<and> in_lang s v)"
proof (cases w)
  case Nil
  then show ?thesis by (simp add: in_lang_Cat in_lang_Chr)
next
  case (Cons c v)
  have "in_lang (Cat (Chr k) s) (c # v) \<longleftrightarrow> in_lang (deriv c (Cat (Chr k) s)) v"
    by (rule deriv_in_lang[symmetric])
  also have "\<dots> \<longleftrightarrow> cclass_match k c \<and> in_lang s v"
    by (simp add: in_lang_Cat_Empty in_lang_Cat_Never)
  finally show ?thesis using Cons by simp
qed

lemma in_lang_OneOrMore_Chr:
  "in_lang (OneOrMore (Chr k)) w \<longleftrightarrow> w \<noteq> [] \<and> list_all (cclass_match k) w"
  by (cases w) (auto simp: OneOrMore_def in_lang_Cat_Chr in_lang_Many_Chr)

lemma in_lang_Dollar: "in_lang Dollar w \<longleftrightarrow> w = [] \<or> w = [newline]"
  by (auto simp: Dollar_def in_lang_Or in_lang_Empty in_lang_Chr)

lemma in_lang_Caret_Cat: "in_lang (Cat Caret s) w \<longleftrightarrow> in_lang s w"
  by (simp add: Caret_def in_lang_Cat_Empty)

lemma in_lang_dot_name:
  "in_lang (Cat (Chr (Lit (CHR ''.''))) (Cat (OneOrMore (Chr k)) Dollar)) w \<longleftrightarrow>
     (\<exists>srv nl. w = ''.'' @ srv @ nl \<and> srv \<noteq> [] \<and> list_all (cclass_match k) srv \<and>
        (nl = [] \<or> nl = [newline]))"
  by (auto simp: in_lang_Cat_Chr in_lang_Cat[of "OneOrMore (Chr k)"] in_lang_OneOrMore_Chr
      in_lang_Dollar)

lemma in_lang_digits_then:
  "in_lang (Cat Caret (Cat (OneOrMore (Chr Digit)) s)) w \<longleftrightarrow>
     (\<exists>ds rest. w = ds @ rest \<and> ds \<noteq> [] \<and> list_all isdigit_re ds \<and> in_lang s rest)"
  by (auto simp: in_lang_Caret_Cat in_lang_Cat[of "OneOrMore (Chr Digit)"] in_lang_OneOrMore_Chr
      list_all_iff)

text \<open>
  The strings the code's job id pattern accepts, and the strings the pattern of the
  specification accepts.
\<close>

lemma job_id_shape:
  "regex_match JOB_ID_PATTERN jid \<longleftrightarrow>
     (\<exists>ds srv nl. jid = ds @ ''.'' @ srv @ nl \<and> ds \<noteq> [] \<and> list_all isdigit_re ds \<and>
        srv \<noteq> [] \<and> newline \<notin> set srv \<and> (nl = [] \<or> nl = [newline]))"
  unfolding regex_match_def matcher_in_lang JOB_ID_PATTERN_def in_lang_digits_then in_lang_dot_name
  by (simp add: list_all_iff) blast

lemma spec_job_id_shape:
  "regex_match SPEC_JOB_ID_PATTERN jid \<longleftrightarrow>
     (\<exists>ds srv nl. jid = ds @ ''.'' @ srv @ nl \<and> ds \<noteq> [] \<and> list_all isdigit_re ds \<and>
        srv \<noteq> [] \<and> list_all (\<lambda>c. \<not> isspace c) srv \<and> (nl = [] \<or> nl = [newline]))"
  unfolding regex_match_def matcher_in_lang SPEC_JOB_ID_PATTERN_def in_lang_digits_then in_lang_dot_name
  by (simp add: list_all_iff) blast

subsection \<open>Loading, scanning and well-formed stores\<close>

lemma from_dict_to_dict: "from_dict (to_dict info) = Inr info"
  by (simp add: from_dict_def to_dict_def)

lemma loaded_Parsed_to_dict: "loaded (Dir (Parsed (to_dict info))) = Some info"
  by (simp add: loaded_def from_dict_to_dict)

lemma get_workspace_Cons:
  "get_workspace wid ((p, e) # rest) =
     (case loaded e of
        Some info \<Rightarrow> if workspace_id info = wid then Some info else get_workspace wid rest
      | None \<Rightarrow> get_workspace wid rest)"
  by (cases e) (simp_all add: loaded_def)

lemma scan_None_Cons:
  "scan_workspaces None ((p, e) # rest) =
     (case loaded e of Some info \<Rightarrow> info # scan_workspaces None rest
      | None \<Rightarrow> scan_workspaces None rest)"
  by (cases e) (simp_all add: loaded_def split: option.splits)

lemma scan_None_append:
  "scan_workspaces None (fs @ gs) = scan_workspaces None fs @ scan_workspaces None gs"
  by (induction fs) (auto simp: scan_None_Cons split: option.splits)

lemma in_scan_None:
  "info \<in> set (scan_workspaces None fs) \<longleftrightarrow> (\<exists>p e. (p, e) \<in> set fs \<and> loaded e = Some info)"
proof (induction fs)
  case Nil
  show ?case by simp
next
  case (Cons pe fs)
  obtain p0 e0 where pe: "pe = (p0, e0)" by (cases pe)
  show ?case
  proof (cases "loaded e0")
    case None
    with Cons pe show ?thesis by (simp add: scan_None_Cons) (metis option.distinct(1))
  next
    case (Some i0)
    with Cons pe show ?thesis by (simp add: scan_None_Cons) (metis option.inject)
  qed
qed

lemma get_workspace_in_scan:
  "get_workspace wid fs = Some info \<Longrightarrow>
     workspace_id info = wid \<and> info \<in> set (scan_workspaces None fs)"
  by (induction fs) (auto simp: get_workspace_Cons scan_None_Cons split: option.splits if_splits)

lemma get_workspace_None:
  "get_workspace wid fs = None \<longleftrightarrow> wid \<notin> workspace_id ` set (scan_workspaces None fs)"
  by (induction fs) (auto simp: get_workspace_Cons scan_None_Cons split: option.splits if_splits)

lemma get_workspace_append:
  "get_workspace wid (fs @ gs) =
     (case get_workspace wid fs of Some info \<Rightarrow> Some info | None \<Rightarrow> get_workspace wid gs)"
  by (induction fs) (auto simp: get_workspace_Cons split: option.splits)

lemma get_workspace_distinct:
  "distinct (map workspace_id (scan_workspaces None fs)) \<Longrightarrow>
     info \<in> set (scan_workspaces None fs) \<Longrightarrow> get_workspace (workspace_id info) fs = Some info"
  by (induction fs) (auto simp: get_workspace_Cons scan_None_Cons split: option.splits)

lemma wf_store_Nil: "wf_store []"
  by (simp add: wf_store_def)

lemma wf_store_Cons:
  "wf_store ((p, e) # rest) \<Longrightarrow> wf_store rest"
  by (auto simp: wf_store_def scan_None_Cons split: option.splits)

lemma wf_store_path:
  "wf_store fs \<Longrightarrow> (p, e) \<in> set fs \<Longrightarrow> loaded e = Some info \<Longrightarrow> path info = p"
  by (auto simp: wf_store_def list_all_iff)

lemma wf_store_map_of:
  "wf_store fs \<Longrightarrow> (map_of fs p = Some e) = ((p, e) \<in> set fs)"
  by (simp add: wf_store_def)

lemma wf_store_get:
  assumes "wf_store fs" "get_workspace wid fs = Some info"
  shows "\<exists>m. map_of fs (path info) = Some (Dir m) \<and> load_workspace_metadata m = Some info"
proof -
  from get_workspace_in_scan[OF assms(2)] obtain p e where pe: "(p, e) \<in> set fs" "loaded e = Some info"
    by (auto simp: in_scan_None)
  with assms(1) have "path info = p" by (rule wf_store_path)
  moreover from pe(2) obtain m where "e = Dir m" "load_workspace_metadata m = Some info"
    by (cases e) (auto simp: loaded_def)
  ultimately have "map_of fs (path info) = Some (Dir m)"
    using pe(1) assms(1) by (simp add: wf_store_map_of)
  with \<open>load_workspace_metadata m = Some info\<close> show ?thesis by blast
qed

lemma wf_store_scan_path:
  "wf_store fs \<Longrightarrow> info \<in> set (scan_workspaces None fs) \<Longrightarrow> path info \<in> fst ` set fs"
  by (force simp: in_scan_None dest: wf_store_path)


lemma scan_None_delete:
  "wf_store fs \<Longrightarrow>
     scan_workspaces None (AList.delete p fs) = filter (\<lambda>i. path i \<noteq> p) (scan_workspaces None fs)"
proof (induction fs)
  case Nil
  show ?case by simp
next
  case (Cons pe fs)
  obtain p0 e0 where pe: "pe = (p0, e0)" by (cases pe)
  from Cons.prems pe have wf: "wf_store fs" by (auto dest: wf_store_Cons)
  note IH = Cons.IH[OF wf]
  have head: "\<And>i. loaded e0 = Some i \<Longrightarrow> path i = p0"
    using Cons.prems pe by (auto dest: wf_store_path)
  show ?case
    using IH pe head by (auto simp: scan_None_Cons split: option.splits)
qed

lemma wf_store_delete: "wf_store fs \<Longrightarrow> wf_store (AList.delete p fs)"
  unfolding wf_store_def[of "AList.delete p fs"]
proof (intro conjI)
  assume wf: "wf_store fs"
  then show "distinct (map fst (AList.delete p fs))"
    by (simp add: wf_store_def distinct_delete)
  from wf show "list_all (\<lambda>(p, e). case loaded e of Some info \<Rightarrow> path info = p | None \<Rightarrow> True)
      (AList.delete p fs)"
    by (auto simp: wf_store_def AList.delete_eq list_all_iff)
  from wf show "distinct (map workspace_id (scan_workspaces None (AList.delete p fs)))"
    by (simp add: scan_None_delete distinct_map_filter wf_store_def)
qed

lemma update_append_fresh:
  "k \<notin> fst ` set xs \<Longrightarrow> AList.update k v (xs @ ys) = xs @ AList.update k v ys"
  by (induction xs) auto

lemma create_workspace_Inr:
  assumes "create_workspace mgr t wid jname md fs = (Inr w, fs')"
  shows "map_of fs (path w) = None
    \<and> path w = path_join (base_path mgr) (get_workspace_dirname jname t)
    \<and> w = \<lparr>workspace_id = wid, path = path_join (base_path mgr) (get_workspace_dirname jname t),
           job_name = jname, created_at = isoformat t, system = system_name mgr,
           status = ''active'', job_id = None, script_path = None,
           metadata = (case md of None \<Rightarrow> Map.empty | Some m \<Rightarrow> m)\<rparr>
    \<and> fs' = fs @ [(path w, Dir (Parsed (to_dict w)))]"
proof -
  let ?p = "path_join (base_path mgr) (get_workspace_dirname jname t)"
  from assms have none: "map_of fs ?p = None"
    by (auto simp: create_workspace_def mkdir_def Let_def split: option.splits sum.splits)
  then have fresh: "?p \<notin> fst ` set fs" by (simp add: map_of_eq_None_iff)
  from assms none fresh show ?thesis
    by (auto simp: create_workspace_def mkdir_def Let_def save_workspace_metadata_def
        update_append_fresh split: option.splits sum.splits)
qed

lemma get_workspace_after_save:
  assumes "wf_store fs" "get_workspace wid fs = Some info"
    "workspace_id info' = wid" "path info' = path info"
  shows "get_workspace wid (AList.update (path info) (Dir (Parsed (to_dict info'))) fs) = Some info'"
  using assms(1,2)
proof (induction fs)
  case Nil
  then show ?case by simp
next
  case (Cons pe fs)
  obtain p0 e0 where pe: "pe = (p0, e0)" by (cases pe)
  from Cons.prems(1) pe have wf: "wf_store fs" by (auto dest: wf_store_Cons)
  show ?case
  proof (cases "\<exists>i0. loaded e0 = Some i0 \<and> workspace_id i0 = wid")
    case True
    then obtain i0 where i0: "loaded e0 = Some i0" "workspace_id i0 = wid" by blast
    with Cons.prems(2) pe have "info = i0" by (simp add: get_workspace_Cons)
    moreover from Cons.prems(1) pe i0(1) have "path i0 = p0" by (auto dest: wf_store_path)
    ultimately show ?thesis
      using pe assms(3) by (simp add: get_workspace_Cons loaded_Parsed_to_dict)
  next
    case False
    with Cons.prems(2) pe have g: "get_workspace wid fs = Some info"
      by (auto simp: get_workspace_Cons split: option.splits if_splits)
    from get_workspace_in_scan[OF g] wf have "path info \<in> fst ` set fs"
      by (auto dest: wf_store_scan_path)
    moreover from Cons.prems(1) pe have "p0 \<notin> fst ` set fs" by (simp add: wf_store_def)
    ultimately have "p0 \<noteq> path info" by auto
    with False pe Cons.IH[OF wf g] show ?thesis
      by (auto simp: get_workspace_Cons split: option.splits)
  qed
qed

lemma update_workspace_wf:
  assumes "wf_store fs" "get_workspace wid fs = Some info"
  shows "update_workspace wid st jid sp md fs =
     (let info' = info\<lparr>status := (case st of Some s \<Rightarrow> if s \<noteq> [] then s else status info
                                     | None \<Rightarrow> status info),
                       job_id := (case jid of Some j \<Rightarrow> if j \<noteq> [] then Some j else job_id info
                                     | None \<Rightarrow> job_id info),
                       script_path := (case sp of Some s \<Rightarrow> if s \<noteq> [] then Some s else script_path info
                                     | None \<Rightarrow> script_path info),
                       metadata := (case md of Some m \<Rightarrow> metadata info ++ m | None \<Rightarrow> metadata info)\<rparr>
      in (Inr (Some info'), AList.update (path info) (Dir (Parsed (to_dict info'))) fs))"
proof -
  from wf_store_get[OF assms] obtain m where "map_of fs (path info) = Some (Dir m)" by blast
  moreover have "(case md of Some m \<Rightarrow> if m \<noteq> Map.empty then metadata info ++ m else metadata info
                  | None \<Rightarrow> metadata info)
      = (case md of Some m \<Rightarrow> metadata info ++ m | None \<Rightarrow> metadata info)"
    by (simp split: option.splits)
  ultimately show ?thesis
    using assms(2) by (simp add: update_workspace_def save_workspace_metadata_def Let_def)
qed

text \<open>
  Well-formedness is an invariant of the workspace manager: the empty store has it, and
  \<open>create_workspace\<close> (with an identifier no stored workspace has), \<open>update_workspace\<close>
  and \<open>cleanup_workspace\<close> keep it.
\<close>

lemma wf_store_create:
  assumes "wf_store fs" "create_workspace mgr t wid jname md fs = (Inr w, fs')"
    "get_workspace wid fs = None"
  shows "wf_store fs'"
proof -
  note c = create_workspace_Inr[OF assms(2)]
  from c have fs': "fs' = fs @ [(path w, Dir (Parsed (to_dict w)))]" by blast
  from c have "map_of fs (path w) = None" by blast
  then have fresh: "path w \<notin> fst ` set fs" by (simp add: map_of_eq_None_iff)
  from c have w: "workspace_id w = wid" by (metis workspace_info.select_convs(1))
  from assms(3) have "wid \<notin> workspace_id ` set (scan_workspaces None fs)"
    by (simp add: get_workspace_None)
  with assms(1) fresh w show ?thesis
    by (simp add: wf_store_def fs' scan_None_append from_dict_to_dict loaded_Parsed_to_dict)
qed

lemma wf_store_save:
  assumes "wf_store fs" "get_workspace wid fs = Some info"
    "workspace_id info' = wid" "path info' = path info"
  shows "wf_store (AList.update (path info) (Dir (Parsed (to_dict info'))) fs)"
  using assms(1,2)
proof (induction fs)
  case Nil
  then show ?case by simp
next
  case (Cons pe fs)
  obtain p0 e0 where pe: "pe = (p0, e0)" by (cases pe)
  from Cons.prems(1) pe have wf: "wf_store fs" by (auto dest: wf_store_Cons)
  show ?case
  proof (cases "\<exists>i0. loaded e0 = Some i0 \<and> workspace_id i0 = wid")
    case True
    then obtain i0 where i0: "loaded e0 = Some i0" "workspace_id i0 = wid" by blast
    with Cons.prems(2) pe have "info = i0" by (simp add: get_workspace_Cons)
    moreover from Cons.prems(1) pe i0(1) have "path i0 = p0" by (auto dest: wf_store_path)
    ultimately show ?thesis
      using pe assms(3,4) Cons.prems(1) i0
      by (simp add: wf_store_def from_dict_to_dict loaded_Parsed_to_dict scan_None_Cons)
  next
    case False
    with Cons.prems(2) pe have g: "get_workspace wid fs = Some info"
      by (auto simp: get_workspace_Cons split: option.splits if_splits)
    from get_workspace_in_scan[OF g] wf have "path info \<in> fst ` set fs"
      by (auto dest: wf_store_scan_path)
    moreover from Cons.prems(1) pe have p0: "p0 \<notin> fst ` set fs" by (simp add: wf_store_def)
    ultimately have ne: "p0 \<noteq> path info" by auto
    let ?fs' = "AList.update (path info) (Dir (Parsed (to_dict info'))) fs"
    from Cons.IH[OF wf g] have wf': "wf_store ?fs'" .
    have keys: "fst ` set ?fs' = fst ` set fs"
      using \<open>path info \<in> fst ` set fs\<close> by (auto simp: dom_update)
    have ids: "workspace_id ` set (scan_workspaces None ?fs')
        \<subseteq> workspace_id ` set (scan_workspaces None fs)"
    proof
      fix x assume "x \<in> workspace_id ` set (scan_workspaces None ?fs')"
      then obtain j where j: "j \<in> set (scan_workspaces None ?fs')" "x = workspace_id j" by auto
      then obtain q f where qf: "(q, f) \<in> set ?fs'" "loaded f = Some j"
        unfolding in_scan_None by blast
      from wf' have "map_of ?fs' q = Some f" using qf(1) by (simp add: wf_store_map_of)
      then have "((map_of fs)(path info \<mapsto> Dir (Parsed (to_dict info')))) q = Some f"
        by (simp add: update_conv')
      then consider "q = path info" "f = Dir (Parsed (to_dict info'))"
        | "q \<noteq> path info" "map_of fs q = Some f" by (auto split: if_splits)
      then show "x \<in> workspace_id ` set (scan_workspaces None fs)"
      proof cases
        case 1
        with qf(2) have "j = info'" by (simp add: loaded_Parsed_to_dict)
        with j(2) assms(3) get_workspace_in_scan[OF g] show ?thesis by (metis imageI)
      next
        case 2
        with wf have "(q, f) \<in> set fs" by (simp add: wf_store_map_of)
        with qf(2) have "j \<in> set (scan_workspaces None fs)" unfolding in_scan_None by blast
        with j(2) show ?thesis by blast
      qed
    qed
    from Cons.prems(1) pe have head: "case loaded e0 of Some i \<Rightarrow> path i = p0 | None \<Rightarrow> True"
      and hd_id: "\<And>i. loaded e0 = Some i \<Longrightarrow> workspace_id i \<notin> workspace_id ` set (scan_workspaces None fs)"
      by (auto simp: wf_store_def scan_None_Cons split: option.splits)
    from wf' have parts: "distinct (map fst ?fs')"
      "list_all (\<lambda>(p, e). case loaded e of Some info \<Rightarrow> path info = p | None \<Rightarrow> True) ?fs'"
      "distinct (map workspace_id (scan_workspaces None ?fs'))"
      by (simp_all add: wf_store_def)
    show ?thesis
      using ne pe parts p0 keys head hd_id ids
      by (auto simp: wf_store_def scan_None_Cons split: option.splits)
  qed
qed

lemma wf_store_update:
  assumes "wf_store fs"
  shows "wf_store (snd (update_workspace wid st jid sp md fs))"
proof (cases "get_workspace wid fs")
  case None
  with assms show ?thesis by (simp add: update_workspace_def)
next
  case (Some info)
  from get_workspace_in_scan[OF Some] have "workspace_id info = wid" by simp
  then show ?thesis
    unfolding update_workspace_wf[OF assms Some] Let_def
    by (simp add: wf_store_save[OF assms Some])
qed

lemma wf_store_cleanup:
  assumes "wf_store fs"
  shows "wf_store (snd (cleanup_workspace wid force fs))"
  using assms
  by (auto simp: cleanup_workspace_def wf_store_delete split: option.splits entry.splits)

text \<open>The example store and the example creation.\<close>

lemma ex_create:
  "create_workspace ex_mgr ex_now ''ba9876543210'' ''job'' None ex_store
     = (Inr ex_created, ex_store @ [(''/ws/job_20261106_123015'', Dir (Parsed (to_dict ex_created)))])"
  by (simp add: create_workspace_def mkdir_def save_workspace_metadata_def Let_def ex_mgr_def
      ex_now_def ex_store_def ex_created_def get_workspace_dirname_def strftime_dirname_def isoformat_def zfill_def str_nat.simps digit_char_def path_join_def isalnum_def code_point_def)

lemma ex_same_second: "same_second ex_now ex_later"
  by (simp add: same_second_def ex_later_def)

lemma wf_ex_store: "wf_store ex_store"
  by (simp add: wf_store_def ex_store_def loaded_def from_dict_to_dict ex_info_def)

lemma get_ex_info: "get_workspace ''0123456789ab'' ex_store = Some ex_info"
  by (simp add: ex_store_def from_dict_to_dict ex_info_def)

subsection \<open>Submission with a blank account\<close>

lemma strip_blank:
  assumes "blank s"
  shows "strip s = []"
proof -
  from assms have d: "dropWhile isspace s = []"
    by (simp add: blank_def list_all_iff)
  show ?thesis unfolding strip_def d by simp
qed

lemma validate_account_blank:
  "blank a \<Longrightarrow> validate_account (Some a) = Inl (ValidationError account_required)"
  by (simp add: validate_account_def strip_blank)

lemma submit_validate_blank:
  "blank a \<Longrightarrow> submit_validate a wt fsys = Inl (failed account_required)"
  by (simp add: submit_validate_def validate_account_blank)

lemma submit_resolve_Inl:
  "submit_resolve ev sp wid sel fs = Inl r \<Longrightarrow> \<exists>m. r = failed m"
  by (auto simp: submit_resolve_def split: option.splits if_splits)

text \<open>
  C1, as amended. For every call of \<open>submit_pbs_job\<close> whose account is empty or consists
  of whitespace only, whatever the other arguments, the backend and the world are: the tool
  returns the structured failure \<^verbatim>\<open>{"error": m, "status": "failed"}\<close> and the world after
  the call is the world before it. So no scheduler client is created and no scheduler call
  is made (the log of scheduler events is unchanged, and the job counter lives in a client
  that is never built), and the store is untouched. The message \<open>m\<close> is the account
  validation message whenever the script path resolves; when it does not, \<open>m\<close> is the
  message of the resolution step, which the code runs first.
\<close>

theorem C1_blank_account_rejected:
  assumes "blank account"
  shows "\<exists>m. submit_pbs_job ev now sp wid queue jname account sel wt fsys w
            = (Inr [(''error'', RStr m), (''status'', RStr ''failed'')], w)
          \<and> ((\<exists>x. submit_resolve ev sp wid sel (files w) = Inr x) \<longrightarrow> m = account_required)"
proof (cases "submit_resolve ev sp wid sel (files w)")
  case (Inl r)
  with submit_resolve_Inl[OF Inl] show ?thesis
    by (auto simp: submit_pbs_job_def failed_def)
next
  case (Inr x)
  with submit_validate_blank[OF assms] show ?thesis
    by (auto simp: submit_pbs_job_def failed_def split: prod.splits)
qed

text \<open>
  That the failure always carries the validation message does not hold: with an unknown
  workspace id and the empty account, the answer is the "not found" failure of the
  resolution step.
\<close>

theorem C1_counterexample:
  "blank [] \<and>
   submit_pbs_job ex_env ex_now None (Some ''ffffffffffff'') None None [] None None None ex_world
     = (Inr [(''error'', RStr ''Workspace ffffffffffff not found''), (''status'', RStr ''failed'')],
        ex_world)
   \<and> ''Workspace ffffffffffff not found'' \<noteq> account_required"
  by (simp add: blank_def submit_pbs_job_def submit_resolve_def ex_env_def ex_world_def
      ex_store_def from_dict_to_dict ex_info_def failed_def account_required_def)

theorem C1_witness:
  "blank ''  '' \<and>
   (\<exists>m. submit_pbs_job ex_env ex_now (Some ''/ws/run.sh'') None None None ''  '' None None None ex_world
            = (Inr [(''error'', RStr m), (''status'', RStr ''failed'')], ex_world)
          \<and> m = account_required)"
proof -
  have b: "blank ''  ''" by (simp add: blank_def isspace_def code_point_def)
  have r: "\<exists>x. submit_resolve ex_env (Some ''/ws/run.sh'') None None (files ex_world) = Inr x"
    by (simp add: submit_resolve_def)
  from C1_blank_account_rejected [OF b, of ex_env ex_now "Some ''/ws/run.sh''" None None None None
      None None ex_world] r b
  show ?thesis by blast
qed

subsection \<open>Status discriminators of the tool responses\<close>

lemma tagged_failed: "tagged ''failed'' (failed m)"
  by (simp add: tagged_def failed_def has_discriminator_def status_of_def error_of_def
      STATUS_DISCRIMINATORS_def)

lemma tagged_traceback:
  "tagged ''failed'' [(''error'', RStr m), (''traceback'', RTraceback), (''status'', RStr ''failed'')]"
  by (simp add: tagged_def has_discriminator_def status_of_def error_of_def
      STATUS_DISCRIMINATORS_def)

lemma tagged_job: "s \<in> set STATUS_DISCRIMINATORS \<Longrightarrow> tagged e [(''job_id'', RStr j), (''status'', RStr s)]"
  by (simp add: tagged_def has_discriminator_def status_of_def error_of_def)

lemma wrap_connection_error_Inr: "wrap_connection_error ev r = Inr x \<Longrightarrow> r = Inr x"
  by (cases "(ev, r)" rule: wrap_connection_error.cases) auto

lemma get_pbs_client_Inr:
  assumes "get_pbs_client ev body w = (Inr x, w')"
  shows "\<exists>c w1. body c w1 = (Inr x, w')"
  using assms
  by (auto simp: get_pbs_client_def Let_def split: pbs_backend.splits prod.splits option.splits
      dest!: wrap_connection_error_Inr)

lemma except_with_status_Inr:
  "except_with_status r = Inr resp \<Longrightarrow>
     r = Inr resp \<or> (\<exists>m. resp = failed m)
     \<or> (\<exists>m. resp = [(''error'', RStr m), (''traceback'', RTraceback), (''status'', RStr ''failed'')])"
  by (cases r rule: except_with_status.cases) auto

lemma except_plain_Inr:
  "except_plain r = Inr resp \<Longrightarrow>
     r = Inr resp \<or> (\<exists>m. resp = [(''error'', RStr m)])
     \<or> (\<exists>m. resp = [(''error'', RStr m), (''traceback'', RTraceback)])"
  by (cases r rule: except_plain.cases) auto

lemma with_client_tagged:
  assumes run: "(case get_pbs_client ev body w of (r, w') \<Rightarrow> (except_with_status r, w')) = (Inr resp, w'')"
    and body: "\<And>c w1 x w2. body c w1 = (Inr x, w2) \<Longrightarrow> tagged ''failed'' x"
  shows "tagged ''failed'' resp"
proof -
  obtain r0 w0 where g: "get_pbs_client ev body w = (r0, w0)" by (cases "get_pbs_client ev body w")
  with run have "except_with_status r0 = Inr resp" by simp
  from except_with_status_Inr[OF this] consider "r0 = Inr resp" | m where "resp = failed m"
    | m where "resp = [(''error'', RStr m), (''traceback'', RTraceback), (''status'', RStr ''failed'')]"
    by blast
  then show ?thesis
  proof cases
    case 1
    with g have "get_pbs_client ev body w = (Inr resp, w0)" by simp
    from get_pbs_client_Inr[OF this] body show ?thesis by blast
  next
    case 2
    then show ?thesis by (simp add: tagged_failed)
  next
    case 3
    then show ?thesis by (simp add: tagged_traceback)
  qed
qed

lemma with_client_plain:
  assumes run: "(case get_pbs_client ev body w of (r, w') \<Rightarrow> (except_plain r, w')) = (Inr resp, w'')"
    and body: "\<And>c w1 x w2. body c w1 = (Inr x, w2) \<Longrightarrow> status_of x = None"
  shows "status_of resp = None"
proof -
  obtain r0 w0 where g: "get_pbs_client ev body w = (r0, w0)" by (cases "get_pbs_client ev body w")
  with run have "except_plain r0 = Inr resp" by simp
  from except_plain_Inr[OF this] consider "r0 = Inr resp" | m where "resp = [(''error'', RStr m)]"
    | m where "resp = [(''error'', RStr m), (''traceback'', RTraceback)]"
    by blast
  then show ?thesis
  proof cases
    case 1
    with g have "get_pbs_client ev body w = (Inr resp, w0)" by simp
    from get_pbs_client_Inr[OF this] body show ?thesis by blast
  next
    case 2
    then show ?thesis by (simp add: status_of_def)
  next
    case 3
    then show ?thesis by (simp add: status_of_def)
  qed
qed

lemma delete_job_tagged: "delete_job ev jid force w = (Inr r, w') \<Longrightarrow> tagged ''failed'' r"
  unfolding delete_job_def
  by (cases "validate_job_id jid")
     (auto simp: tagged_failed delete_job_body_def STATUS_DISCRIMINATORS_def
       elim!: with_client_tagged intro!: tagged_job split: sum.splits)

lemma hold_job_tagged: "hold_job ev jid w = (Inr r, w') \<Longrightarrow> tagged ''failed'' r"
  unfolding hold_job_def
  by (cases "validate_job_id jid")
     (auto simp: tagged_failed hold_job_body_def STATUS_DISCRIMINATORS_def
       elim!: with_client_tagged intro!: tagged_job split: sum.splits)

lemma release_job_tagged: "release_job ev jid w = (Inr r, w') \<Longrightarrow> tagged ''failed'' r"
  unfolding release_job_def
  by (cases "validate_job_id jid")
     (auto simp: tagged_failed release_job_body_def STATUS_DISCRIMINATORS_def
       elim!: with_client_tagged intro!: tagged_job split: sum.splits)

lemma submit_body_tagged:
  "submit_body ev now wi spath q sattrs c w1 = (Inr x, w2) \<Longrightarrow> tagged ''failed'' x"
  by (auto simp: submit_body_def Let_def tagged_def has_discriminator_def status_of_def error_of_def
      STATUS_DISCRIMINATORS_def split: sum.splits prod.splits option.splits)

lemma submit_validate_Inl: "submit_validate a wt fsys = Inl r \<Longrightarrow> \<exists>m. r = failed m"
  by (auto simp: submit_validate_def split: sum.splits)

lemma submit_pbs_job_tagged:
  assumes "submit_pbs_job ev now sp wid queue jname account sel wt fsys w = (Inr r, w')"
  shows "tagged ''failed'' r"
proof (cases "submit_resolve ev sp wid sel (files w)")
  case (Inl early)
  with assms submit_resolve_Inl[OF Inl] show ?thesis
    by (auto simp: submit_pbs_job_def tagged_failed)
next
  case (Inr x)
  obtain wi spath sel' where x: "x = (wi, spath, sel')" by (cases x)
  show ?thesis
  proof (cases "submit_validate account wt fsys")
    case (Inl early)
    with assms Inr x submit_validate_Inl[OF Inl] show ?thesis
      by (auto simp: submit_pbs_job_def tagged_failed)
  next
    case (Inr acc)
    with assms \<open>submit_resolve ev sp wid sel (files w) = Inr x\<close> x show ?thesis
      by (auto simp: submit_pbs_job_def Let_def elim!: with_client_tagged dest: submit_body_tagged)
  qed
qed

lemma create_job_workspace_tagged:
  "create_job_workspace mgr t wid jname d fs = (Inr r, fs') \<Longrightarrow> tagged ''failed'' r"
  by (auto simp: create_job_workspace_def Let_def tagged_def has_discriminator_def status_of_def
      error_of_def STATUS_DISCRIMINATORS_def split: prod.splits sum.splits if_splits)

lemma cleanup_workspace_tool_tagged:
  "cleanup_workspace_tool wid force fs = (Inr r, fs') \<Longrightarrow> tagged ''not_found'' r"
  by (auto simp: cleanup_workspace_tool_def tagged_def has_discriminator_def status_of_def
      error_of_def STATUS_DISCRIMINATORS_def split: prod.splits sum.splits option.splits bool.splits)

lemma status_of_format_job_status: "status_of (format_job_status job) = None"
  by (simp add: format_job_status_def status_of_def Let_def split: prod.splits)

lemma get_job_status_plain: "get_job_status ev jid w = (Inr r, w') \<Longrightarrow> status_of r = None"
  unfolding get_job_status_def
  by (cases "validate_job_id jid")
     (auto simp: get_job_status_body_def status_of_def status_of_format_job_status[unfolded status_of_def]
       elim!: with_client_plain[unfolded status_of_def] split: sum.splits list.splits)

lemma list_jobs_plain: "list_jobs ev state queue w = (Inr r, w') \<Longrightarrow> status_of r = None"
  unfolding list_jobs_def
  by (auto simp: list_jobs_body_def status_of_def Let_def
       elim!: with_client_plain[unfolded status_of_def] split: sum.splits)

text \<open>
  C2, as amended. Every response of the workspace tools create and cleanup and of the job
  tools submit, cancel, hold and release carries a status discriminator of the fixed set;
  each such response that carries an error string has status \<^verbatim>\<open>failed\<close>, except that
  cleanup answers an unknown workspace id with an error string and status \<^verbatim>\<open>not_found\<close>.
  The workspace tool get answers an unknown id with an error string and status
  \<^verbatim>\<open>not_found\<close>, and otherwise reports under \<^verbatim>\<open>status\<close> the stored lifecycle status
  of the workspace. The responses of the job status query, of the job listing and of the
  workspace listing have no \<^verbatim>\<open>status\<close> key at all; their failures carry the error
  string only. (The statement is about the responses a tool returns; it says nothing of
  calls that end in an exception.)
\<close>

theorem C2_status_discriminators:
  "(\<forall>r fs'. create_job_workspace mgr t wid jname d fs = (Inr r, fs') \<longrightarrow> tagged ''failed'' r)
   \<and> (\<forall>r fs'. cleanup_workspace_tool wid force fs = (Inr r, fs') \<longrightarrow> tagged ''not_found'' r)
   \<and> (\<forall>r w'. submit_pbs_job ev now sp swid queue sjname account sel wt fsys w = (Inr r, w')
          \<longrightarrow> tagged ''failed'' r)
   \<and> (\<forall>r w'. delete_job ev jid force w = (Inr r, w') \<longrightarrow> tagged ''failed'' r)
   \<and> (\<forall>r w'. hold_job ev jid w = (Inr r, w') \<longrightarrow> tagged ''failed'' r)
   \<and> (\<forall>r w'. release_job ev jid w = (Inr r, w') \<longrightarrow> tagged ''failed'' r)
   \<and> (case get_workspace wid fs of
         None \<Rightarrow> get_workspace_info wid fs
                  = [(''error'', RStr (''Workspace '' @ wid @ '' not found'')),
                     (''status'', RStr ''not_found'')]
       | Some info \<Rightarrow> status_of (get_workspace_info wid fs) = Some (RStr (status info))
                      \<and> error_of (get_workspace_info wid fs) = None)
   \<and> (\<forall>r w'. get_job_status ev jid w = (Inr r, w') \<longrightarrow> status_of r = None)
   \<and> (\<forall>r w'. list_jobs ev state lqueue w = (Inr r, w') \<longrightarrow> status_of r = None)
   \<and> status_of (list_workspaces_tool mgr st limit fs) = None"
proof (intro conjI allI impI)
  show "case get_workspace wid fs of
         None \<Rightarrow> get_workspace_info wid fs
                  = [(''error'', RStr (''Workspace '' @ wid @ '' not found'')),
                     (''status'', RStr ''not_found'')]
       | Some info \<Rightarrow> status_of (get_workspace_info wid fs) = Some (RStr (status info))
                      \<and> error_of (get_workspace_info wid fs) = None"
    by (simp add: get_workspace_info_def status_of_def error_of_def split: option.splits)
  show "status_of (list_workspaces_tool mgr st limit fs) = None"
    by (simp add: list_workspaces_tool_def status_of_def Let_def)
qed (erule create_job_workspace_tagged cleanup_workspace_tool_tagged submit_pbs_job_tagged
      delete_job_tagged hold_job_tagged release_job_tagged get_job_status_plain list_jobs_plain)+

text \<open>
  That every response has a discriminator of the fixed set does not hold: the job status
  query answers a malformed job id with the error string alone, and get reports the
  lifecycle status \<^verbatim>\<open>active\<close>, which is not in the set.
\<close>

theorem C2_counterexample:
  "get_job_status ex_env ''job42'' ex_world
     = (Inr [(''error'', RStr (''Invalid job ID format: '' @ [CHR 0x27] @ ''job42'' @ [CHR 0x27] @ ''. ''
               @ ''Expected format: <number>.<server> (e.g., 12345.aurora-pbs-01)''))], ex_world)
   \<and> \<not> has_discriminator
         [(''error'', RStr (''Invalid job ID format: '' @ [CHR 0x27] @ ''job42'' @ [CHR 0x27] @ ''. ''
               @ ''Expected format: <number>.<server> (e.g., 12345.aurora-pbs-01)''))]
   \<and> status_of (get_workspace_info ''ba9876543210''
        [(''/ws/job_20261106_123015'', Dir (Parsed (to_dict ex_created)))]) = Some (RStr ''active'')
   \<and> \<not> has_discriminator (get_workspace_info ''ba9876543210''
        [(''/ws/job_20261106_123015'', Dir (Parsed (to_dict ex_created)))])"
  by (simp add: get_job_status_def validate_job_id_def regex_match_def JOB_ID_PATTERN_def SPEC_JOB_ID_PATTERN_def Caret_def Dollar_def OneOrMore_def isdigit_re_def isspace_def code_point_def newline_def has_discriminator_def
      status_of_def get_workspace_info_def from_dict_to_dict ex_created_def
      STATUS_DISCRIMINATORS_def)

theorem C2_witness:
  "delete_job ex_env ''1000.aurora-pbs-01'' False ex_world
     = (Inr [(''job_id'', RStr ''1000.aurora-pbs-01''), (''status'', RStr ''deleted'')],
        ex_world\<lparr>sched_log := [Connect ''aurora-pbs-01'', Delete_job ''1000.aurora-pbs-01'' False]\<rparr>)
   \<and> tagged ''failed'' [(''job_id'', RStr ''1000.aurora-pbs-01''), (''status'', RStr ''deleted'')]
   \<and> hold_job ex_env ''job42'' ex_world
     = (Inr [(''error'', RStr (''Invalid job ID format: '' @ [CHR 0x27] @ ''job42'' @ [CHR 0x27] @ ''. ''
               @ ''Expected format: <number>.<server> (e.g., 12345.aurora-pbs-01)'')),
             (''status'', RStr ''failed'')], ex_world)
   \<and> tagged ''failed''
        [(''error'', RStr (''Invalid job ID format: '' @ [CHR 0x27] @ ''job42'' @ [CHR 0x27] @ ''. ''
               @ ''Expected format: <number>.<server> (e.g., 12345.aurora-pbs-01)'')),
         (''status'', RStr ''failed'')]"
proof -
  have d: "delete_job ex_env ''1000.aurora-pbs-01'' False ex_world
     = (Inr [(''job_id'', RStr ''1000.aurora-pbs-01''), (''status'', RStr ''deleted'')],
        ex_world\<lparr>sched_log := [Connect ''aurora-pbs-01'', Delete_job ''1000.aurora-pbs-01'' False]\<rparr>)"
    by (simp add: regex_match_def JOB_ID_PATTERN_def SPEC_JOB_ID_PATTERN_def Caret_def Dollar_def OneOrMore_def isdigit_re_def isspace_def code_point_def newline_def delete_job_def validate_job_id_def get_pbs_client_def
        delete_job_body_def ex_env_def ex_world_def log_call_def MockPBSClient_def mock_connect_def
        ex_cfg_def)
  have h: "hold_job ex_env ''job42'' ex_world
     = (Inr [(''error'', RStr (''Invalid job ID format: '' @ [CHR 0x27] @ ''job42'' @ [CHR 0x27] @ ''. ''
               @ ''Expected format: <number>.<server> (e.g., 12345.aurora-pbs-01)'')),
             (''status'', RStr ''failed'')], ex_world)"
    by (simp add: regex_match_def JOB_ID_PATTERN_def SPEC_JOB_ID_PATTERN_def Caret_def Dollar_def OneOrMore_def isdigit_re_def isspace_def code_point_def newline_def hold_job_def validate_job_id_def failed_def)
  note del = C2_status_discriminators [THEN conjunct2, THEN conjunct2, THEN conjunct2, THEN conjunct1,
      rule_format]
  note hold = C2_status_discriminators [THEN conjunct2, THEN conjunct2, THEN conjunct2, THEN conjunct2,
      THEN conjunct1, rule_format]
  from d have 1: "tagged ''failed'' [(''job_id'', RStr ''1000.aurora-pbs-01''), (''status'', RStr ''deleted'')]"
    by (rule del)
  from h have 2: "tagged ''failed''
        [(''error'', RStr (''Invalid job ID format: '' @ [CHR 0x27] @ ''job42'' @ [CHR 0x27] @ ''. ''
               @ ''Expected format: <number>.<server> (e.g., 12345.aurora-pbs-01)'')),
         (''status'', RStr ''failed'')]"
    by (rule hold)
  from d h 1 2 show ?thesis by blast
qed

subsection \<open>Job id validation\<close>

lemma validate_job_id_cases:
  "validate_job_id jid = Inr () \<or> (\<exists>m. validate_job_id jid = Inl (ValidationError m))"
  by (simp add: validate_job_id_def)

lemma mock_call_logs:
  assumes "validate_job_id jid = Inr ()" "backend ev = Mock_backend"
  shows "sched_log (snd (get_job_status ev jid w))
           = sched_log w @ [Connect (server (MockPBSClient (Some (pbs_server (config ev))))),
                            Stat_jobs (Some jid)]"
    and "sched_log (snd (delete_job ev jid force w))
           = sched_log w @ [Connect (server (MockPBSClient (Some (pbs_server (config ev))))),
                            Delete_job jid force]"
    and "sched_log (snd (hold_job ev jid w))
           = sched_log w @ [Connect (server (MockPBSClient (Some (pbs_server (config ev))))),
                            Hold_job jid]"
    and "sched_log (snd (release_job ev jid w))
           = sched_log w @ [Connect (server (MockPBSClient (Some (pbs_server (config ev))))),
                            Release_job jid]"
  using assms
  by (simp_all add: get_job_status_def delete_job_def hold_job_def release_job_def
      get_pbs_client_def Let_def get_job_status_body_def delete_job_body_def hold_job_body_def
      release_job_body_def log_call_def mock_connect_def split: list.splits)

text \<open>
  C3, as amended. The job status query, cancel, hold and release accept a job id exactly
  when it matches \<^verbatim>\<open>^\d+\..+$\<close>: one or more digits, a dot, then one or more characters
  other than a newline (spaces included), optionally followed by one final newline.
  For every other job id each of them returns the validation failure with the world
  unchanged, so before any scheduler call (the status query returns the error string
  without a status). For an accepted job id each of them goes on to the scheduler: with
  the simulated backend the log grows by the connection and the one call.
\<close>

theorem C3_job_id_validation:
  "(validate_job_id jid = Inr () \<longleftrightarrow>
      (\<exists>ds srv nl. jid = ds @ ''.'' @ srv @ nl \<and> ds \<noteq> [] \<and> list_all isdigit_re ds \<and>
         srv \<noteq> [] \<and> newline \<notin> set srv \<and> (nl = [] \<or> nl = [newline])))
   \<and> (validate_job_id jid \<noteq> Inr () \<longrightarrow>
        (\<exists>m. validate_job_id jid = Inl (ValidationError m)
           \<and> get_job_status ev jid w = (Inr [(''error'', RStr m)], w)
           \<and> delete_job ev jid force w = (Inr [(''error'', RStr m), (''status'', RStr ''failed'')], w)
           \<and> hold_job ev jid w = (Inr [(''error'', RStr m), (''status'', RStr ''failed'')], w)
           \<and> release_job ev jid w = (Inr [(''error'', RStr m), (''status'', RStr ''failed'')], w)))
   \<and> (validate_job_id jid = Inr () \<and> backend ev = Mock_backend \<longrightarrow>
        sched_log (snd (get_job_status ev jid w))
          = sched_log w @ [Connect (server (MockPBSClient (Some (pbs_server (config ev))))),
                           Stat_jobs (Some jid)]
        \<and> sched_log (snd (delete_job ev jid force w))
          = sched_log w @ [Connect (server (MockPBSClient (Some (pbs_server (config ev))))),
                           Delete_job jid force]
        \<and> sched_log (snd (hold_job ev jid w))
          = sched_log w @ [Connect (server (MockPBSClient (Some (pbs_server (config ev))))),
                           Hold_job jid]
        \<and> sched_log (snd (release_job ev jid w))
          = sched_log w @ [Connect (server (MockPBSClient (Some (pbs_server (config ev))))),
                           Release_job jid])"
proof (intro conjI impI)
  show "validate_job_id jid = Inr () \<longleftrightarrow>
      (\<exists>ds srv nl. jid = ds @ ''.'' @ srv @ nl \<and> ds \<noteq> [] \<and> list_all isdigit_re ds \<and>
         srv \<noteq> [] \<and> newline \<notin> set srv \<and> (nl = [] \<or> nl = [newline]))"
  proof -
    have "validate_job_id jid = Inr () \<longleftrightarrow> regex_match JOB_ID_PATTERN jid"
      by (simp add: validate_job_id_def)
    then show ?thesis by (simp only: job_id_shape)
  qed
next
  assume "validate_job_id jid \<noteq> Inr ()"
  with validate_job_id_cases[of jid] obtain m where m: "validate_job_id jid = Inl (ValidationError m)"
    by blast
  then have "get_job_status ev jid w = (Inr [(''error'', RStr m)], w)"
    "delete_job ev jid force w = (Inr [(''error'', RStr m), (''status'', RStr ''failed'')], w)"
    "hold_job ev jid w = (Inr [(''error'', RStr m), (''status'', RStr ''failed'')], w)"
    "release_job ev jid w = (Inr [(''error'', RStr m), (''status'', RStr ''failed'')], w)"
    by (simp_all add: get_job_status_def delete_job_def hold_job_def release_job_def failed_def)
  with m show "\<exists>m. validate_job_id jid = Inl (ValidationError m)
           \<and> get_job_status ev jid w = (Inr [(''error'', RStr m)], w)
           \<and> delete_job ev jid force w = (Inr [(''error'', RStr m), (''status'', RStr ''failed'')], w)
           \<and> hold_job ev jid w = (Inr [(''error'', RStr m), (''status'', RStr ''failed'')], w)
           \<and> release_job ev jid w = (Inr [(''error'', RStr m), (''status'', RStr ''failed'')], w)"
    by blast
qed (simp_all add: mock_call_logs)

text \<open>
  With the pattern \<^verbatim>\<open>^\d+\.\S+$\<close> in place of the code's the property fails: the job
  id \<^verbatim>\<open>1.a b\<close> has a space in its server part, yet cancel accepts it and calls the
  scheduler.
\<close>

theorem C3_counterexample:
  "regex_match JOB_ID_PATTERN ''1.a b'' \<and> \<not> regex_match SPEC_JOB_ID_PATTERN ''1.a b''
   \<and> delete_job ex_env ''1.a b'' False ex_world
       = (Inr [(''job_id'', RStr ''1.a b''), (''status'', RStr ''deleted'')],
          ex_world\<lparr>sched_log := [Connect ''aurora-pbs-01'', Delete_job ''1.a b'' False]\<rparr>)"
  by (simp add: regex_match_def JOB_ID_PATTERN_def SPEC_JOB_ID_PATTERN_def Caret_def Dollar_def OneOrMore_def isdigit_re_def isspace_def code_point_def newline_def delete_job_def validate_job_id_def get_pbs_client_def
      delete_job_body_def ex_env_def ex_world_def log_call_def MockPBSClient_def mock_connect_def
      ex_cfg_def)

theorem C3_witness:
  "validate_job_id ''12345.aurora-pbs-01'' = Inr ()
   \<and> validate_job_id ''job42'' \<noteq> Inr ()
   \<and> (\<exists>m. hold_job ex_env ''job42'' ex_world
            = (Inr [(''error'', RStr m), (''status'', RStr ''failed'')], ex_world))
   \<and> sched_log (snd (hold_job ex_env ''12345.aurora-pbs-01'' ex_world))
       = [Connect ''aurora-pbs-01'', Hold_job ''12345.aurora-pbs-01'']"
proof -
  have ok: "validate_job_id ''12345.aurora-pbs-01'' = Inr ()"
    by (simp add: validate_job_id_def regex_match_def JOB_ID_PATTERN_def SPEC_JOB_ID_PATTERN_def Caret_def Dollar_def OneOrMore_def isdigit_re_def isspace_def code_point_def newline_def)
  have bad: "validate_job_id ''job42'' \<noteq> Inr ()"
    by (simp add: validate_job_id_def regex_match_def JOB_ID_PATTERN_def SPEC_JOB_ID_PATTERN_def Caret_def Dollar_def OneOrMore_def isdigit_re_def isspace_def code_point_def newline_def)
  have mock: "backend ex_env = Mock_backend" by (simp add: ex_env_def)
  from C3_job_id_validation [of "''job42''" ex_env ex_world False] bad
  have 1: "\<exists>m. hold_job ex_env ''job42'' ex_world
            = (Inr [(''error'', RStr m), (''status'', RStr ''failed'')], ex_world)"
    by blast
  from C3_job_id_validation [of "''12345.aurora-pbs-01''" ex_env ex_world False] ok mock
  have 2: "sched_log (snd (hold_job ex_env ''12345.aurora-pbs-01'' ex_world))
       = [Connect ''aurora-pbs-01'', Hold_job ''12345.aurora-pbs-01'']"
    by (simp add: ex_world_def ex_env_def ex_cfg_def MockPBSClient_def)
  from ok bad 1 2 show ?thesis by blast
qed

subsection \<open>Removing old workspaces\<close>



















subsection \<open>Two creations within one second\<close>

lemma dirname_same_second:
  "same_second t1 t2 \<Longrightarrow> get_workspace_dirname jname t1 = get_workspace_dirname jname t2"
  by (simp add: same_second_def get_workspace_dirname_def strftime_dirname_def)

text \<open>
  C5, as amended. The directory name is the sanitised job name and the timestamp to the
  second, with no further suffix. So for every job name, if a create call succeeds, a
  second create call with the same name within the same second (now that the directory
  exists) fails with the collision error \<^verbatim>\<open>FileExistsError\<close> for the directory of the
  first, whatever identifier and metadata it brings, and leaves the store as it is; the
  tool reports it as \<^verbatim>\<open>{"error": ..., "status": "failed"}\<close>. The two calls never yield
  two directories.
\<close>

theorem C5_same_second_collision:
  assumes "same_second t1 t2"
    and "create_workspace mgr t1 wid1 jname md1 fs = (Inr w1, fs1)"
  shows "create_workspace mgr t2 wid2 jname md2 fs1 = (Inl (FileExistsError (path w1)), fs1)
    \<and> create_job_workspace mgr t2 wid2 jname descr fs1
        = (Inr [(''error'', RStr (exn_str (FileExistsError (path w1)))), (''status'', RStr ''failed'')], fs1)"
proof -
  from create_workspace_Inr[OF assms(2)]
  have p: "path w1 = path_join (base_path mgr) (get_workspace_dirname jname t1)"
    and fs1: "fs1 = fs @ [(path w1, Dir (Parsed (to_dict w1)))]" by blast+
  from assms(1) have same: "get_workspace_dirname jname t2 = get_workspace_dirname jname t1"
    by (simp add: dirname_same_second)
  have ex: "map_of fs1 (path w1) \<noteq> None"
    by (simp add: fs1 map_of_eq_None_iff)
  have c: "\<And>md. create_workspace mgr t2 wid2 jname md fs1 = (Inl (FileExistsError (path w1)), fs1)"
    using ex by (auto simp: create_workspace_def mkdir_def Let_def same p[symmetric])
  show ?thesis
    by (simp add: c create_job_workspace_def Let_def)
qed

text \<open>
  That both calls succeed does not hold: the second of two creations of \<^verbatim>\<open>job\<close> within
  the second 12:30:15 raises \<^verbatim>\<open>FileExistsError\<close>.
\<close>

theorem C5_counterexample:
  "same_second ex_now ex_later
   \<and> create_workspace ex_mgr ex_now ''ba9876543210'' ''job'' None ex_store
       = (Inr ex_created, ex_store @ [(''/ws/job_20261106_123015'', Dir (Parsed (to_dict ex_created)))])
   \<and> fst (create_workspace ex_mgr ex_later ''00000000cafe'' ''job'' None
            (ex_store @ [(''/ws/job_20261106_123015'', Dir (Parsed (to_dict ex_created)))]))
       = Inl (FileExistsError ''/ws/job_20261106_123015'')"
  by (simp add: ex_same_second ex_create)
     (simp add: create_workspace_def mkdir_def Let_def ex_mgr_def ex_later_def ex_now_def
       ex_store_def get_workspace_dirname_def strftime_dirname_def isoformat_def zfill_def str_nat.simps digit_char_def path_join_def isalnum_def code_point_def)

theorem C5_witness:
  "same_second ex_now ex_later
   \<and> create_workspace ex_mgr ex_now ''ba9876543210'' ''job'' None ex_store
       = (Inr ex_created, ex_store @ [(''/ws/job_20261106_123015'', Dir (Parsed (to_dict ex_created)))])
   \<and> create_workspace ex_mgr ex_later ''00000000cafe'' ''job'' None
        (ex_store @ [(''/ws/job_20261106_123015'', Dir (Parsed (to_dict ex_created)))])
       = (Inl (FileExistsError ''/ws/job_20261106_123015''),
          ex_store @ [(''/ws/job_20261106_123015'', Dir (Parsed (to_dict ex_created)))])"
  using C5_same_second_collision [OF ex_same_second ex_create, of "''00000000cafe''" None None]
    ex_same_second ex_create
  by (simp add: ex_created_def)

subsection \<open>Updating a workspace\<close>

text \<open>
  C6. For every well-formed store, every workspace \<open>info\<close> that \<open>get_workspace\<close> finds
  under the identifier, and every metadata patch: \<open>update_workspace\<close> returns a record
  whose metadata is the stored map with the patch merged in key by key (\<open>m ++ patch\<close>: the
  patch's value where the patch has the key, the stored value elsewhere), so never the
  patch alone; of the other fields only the supplied ones (status, job id, script path,
  when non-empty) change; and the record is what \<open>get_workspace\<close> returns afterwards. In
  particular metadata \<^verbatim>\<open>{a: 1}\<close> patched with \<^verbatim>\<open>{b: 2}\<close> becomes \<^verbatim>\<open>{a: 1, b: 2}\<close>
  (the witness).
\<close>

theorem C6_update_merges_metadata:
  assumes "wf_store fs" and "get_workspace wid fs = Some info"
  shows "\<exists>info' fs'. update_workspace wid st jid sp (Some patch) fs = (Inr (Some info'), fs')
    \<and> get_workspace wid fs' = Some info'
    \<and> metadata info' = metadata info ++ patch
    \<and> status info' = (case st of Some s \<Rightarrow> if s \<noteq> [] then s else status info | None \<Rightarrow> status info)
    \<and> job_id info' = (case jid of Some j \<Rightarrow> if j \<noteq> [] then Some j else job_id info
                        | None \<Rightarrow> job_id info)
    \<and> script_path info' = (case sp of Some s \<Rightarrow> if s \<noteq> [] then Some s else script_path info
                        | None \<Rightarrow> script_path info)
    \<and> workspace_id info' = workspace_id info \<and> path info' = path info
    \<and> job_name info' = job_name info \<and> created_at info' = created_at info
    \<and> system info' = system info"
proof -
  from get_workspace_in_scan[OF assms(2)] have wid: "workspace_id info = wid" by simp
  show ?thesis
    unfolding update_workspace_wf[OF assms] Let_def
    by (intro exI conjI, rule refl, rule get_workspace_after_save[OF assms]) (simp_all add: wid)
qed

theorem C6_witness:
  "wf_store ex_store \<and> get_workspace ''0123456789ab'' ex_store = Some ex_info
   \<and> metadata ex_info = [''a'' \<mapsto> PInt 1]
   \<and> (\<exists>info' fs'.
         update_workspace ''0123456789ab'' None None None (Some [''b'' \<mapsto> PInt 2]) ex_store
           = (Inr (Some info'), fs')
         \<and> get_workspace ''0123456789ab'' fs' = Some info'
         \<and> metadata info' = [''a'' \<mapsto> PInt 1, ''b'' \<mapsto> PInt 2]
         \<and> status info' = ''submitted'' \<and> job_id info' = Some ''1000.aurora-pbs-01'')"
  using C6_update_merges_metadata [OF wf_ex_store get_ex_info, of None None None "[''b'' \<mapsto> PInt 2]"]
    wf_ex_store get_ex_info
  by (auto simp: ex_info_def)

subsection \<open>The deletion guard\<close>

text \<open>
  C7. In every well-formed store: if no workspace has the identifier, \<open>cleanup_workspace\<close>
  returns \<open>False\<close> and changes nothing, raising no error. If \<open>get_workspace\<close> finds the
  workspace \<open>info\<close> and its status is \<^verbatim>\<open>active\<close> or \<^verbatim>\<open>submitted\<close>, then without
  \<open>force\<close> the call returns \<open>False\<close> and leaves the store, hence the directory and its
  metadata, as they are, and the tool reports \<^verbatim>\<open>not_removed\<close>; with \<open>force\<close> the call
  returns \<open>True\<close> and the store loses exactly the directory of the workspace (which did
  exist), after which the identifier is no longer found.
\<close>

theorem C7_cleanup_guard:
  assumes "wf_store fs"
  shows "case get_workspace wid fs of
           None \<Rightarrow> cleanup_workspace wid force fs = (Inr False, fs)
         | Some info \<Rightarrow>
             (status info = ''active'' \<or> status info = ''submitted'' \<longrightarrow>
                cleanup_workspace wid False fs = (Inr False, fs)
                \<and> cleanup_workspace_tool wid False fs
                    = (Inr [(''workspace_id'', RStr wid), (''path'', RStr (path info)),
                            (''current_status'', RStr (status info)),
                            (''status'', RStr ''not_removed''),
                            (''message'', RStr ''Workspace has active/submitted job. Use force=True to remove anyway.'')],
                       fs))
             \<and> cleanup_workspace wid True fs = (Inr True, filter (\<lambda>pe. fst pe \<noteq> path info) fs)
             \<and> map_of fs (path info) \<noteq> None
             \<and> get_workspace wid (filter (\<lambda>pe. fst pe \<noteq> path info) fs) = None"
proof (cases "get_workspace wid fs")
  case None
  then show ?thesis by (simp add: cleanup_workspace_def)
next
  case (Some info)
  from wf_store_get[OF assms Some] obtain m where m: "map_of fs (path info) = Some (Dir m)" by blast
  have del: "AList.delete (path info) fs = filter (\<lambda>pe. fst pe \<noteq> path info) fs"
    by (auto simp: AList.delete_eq intro: filter_cong)
  from get_workspace_in_scan[OF Some] have wid: "workspace_id info = wid"
    and mem: "info \<in> set (scan_workspaces None fs)" by simp_all
  have gone: "get_workspace wid (AList.delete (path info) fs) = None"
  proof -
    have "wid \<notin> workspace_id ` set (filter (\<lambda>i. path i \<noteq> path info) (scan_workspaces None fs))"
    proof
      assume "wid \<in> workspace_id ` set (filter (\<lambda>i. path i \<noteq> path info) (scan_workspaces None fs))"
      then obtain j where j: "j \<in> set (scan_workspaces None fs)" "path j \<noteq> path info"
        "workspace_id j = wid" by auto
      from assms j(1) have "get_workspace (workspace_id j) fs = Some j"
        by (simp add: wf_store_def get_workspace_distinct)
      with j(3) Some have "j = info" by simp
      with j(2) show False by simp
    qed
    then show ?thesis
      by (simp add: get_workspace_None scan_None_delete[OF assms])
  qed
  show ?thesis
    using Some m gone by (simp add: cleanup_workspace_def cleanup_workspace_tool_def del)
qed

theorem C7_witness:
  "wf_store ex_store \<and> status ex_info = ''submitted''
   \<and> cleanup_workspace ''0123456789ab'' False ex_store = (Inr False, ex_store)
   \<and> cleanup_workspace ''0123456789ab'' True ex_store = (Inr True, [])
   \<and> cleanup_workspace ''ffffffffffff'' True ex_store = (Inr False, ex_store)"
proof -
  have none: "get_workspace ''ffffffffffff'' ex_store = None"
    by (simp add: ex_store_def from_dict_to_dict ex_info_def)
  from C7_cleanup_guard [OF wf_ex_store, of "''0123456789ab''" False] get_ex_info
  have 1: "cleanup_workspace ''0123456789ab'' False ex_store = (Inr False, ex_store)"
    and 2: "cleanup_workspace ''0123456789ab'' True ex_store = (Inr True, [])"
    by (simp_all add: ex_info_def ex_store_def)
  from C7_cleanup_guard [OF wf_ex_store, of "''ffffffffffff''" True] none
  have 3: "cleanup_workspace ''ffffffffffff'' True ex_store = (Inr False, ex_store)" by simp
  from wf_ex_store 1 2 3 show ?thesis by (simp add: ex_info_def)
qed

subsection \<open>Creation and retrieval\<close>

text \<open>
  C8. For every job name and metadata map (and every manager, clock reading and store): if
  \<open>create_workspace\<close> returns the record \<open>w\<close>, and the identifier drawn for it was not
  the identifier of a workspace already stored (identifiers are drawn by \<^verbatim>\<open>uuid4\<close>), then
  \<open>get_workspace\<close> on the resulting store returns \<open>w\<close> itself: the same workspace id,
  path, job name, creation timestamp, system, status, job id, script path and metadata.
\<close>

theorem C8_create_get_roundtrip:
  assumes "create_workspace mgr t wid jname md fs = (Inr w, fs')"
    and "get_workspace wid fs = None"
  shows "get_workspace (workspace_id w) fs' = Some w"
proof -
  note c = create_workspace_Inr[OF assms(1)]
  from c have w: "workspace_id w = wid"
    by (metis workspace_info.select_convs(1))
  from c have fs': "fs' = fs @ [(path w, Dir (Parsed (to_dict w)))]"
    by blast
  show ?thesis
    using assms(2) by (simp add: w fs' get_workspace_append from_dict_to_dict)
qed

theorem C8_witness:
  "create_workspace ex_mgr ex_now ''ba9876543210'' ''job'' None ex_store
       = (Inr ex_created, ex_store @ [(''/ws/job_20261106_123015'', Dir (Parsed (to_dict ex_created)))])
   \<and> get_workspace ''ba9876543210'' ex_store = None
   \<and> get_workspace ''ba9876543210''
        (ex_store @ [(''/ws/job_20261106_123015'', Dir (Parsed (to_dict ex_created)))])
       = Some ex_created"
proof -
  have fresh: "get_workspace ''ba9876543210'' ex_store = None"
    by (simp add: ex_store_def from_dict_to_dict ex_info_def)
  from C8_create_get_roundtrip [OF ex_create fresh] ex_create fresh show ?thesis
    by (simp add: ex_created_def)
qed

subsection \<open>Job control leaves the workspace store alone\<close>

text \<open>
  C9. For every job id, every world and every scheduler backend (the simulated client, a
  real client whose calls return or raise as they like, or no client at all), cancel
  (\<open>delete_job\<close>), \<open>hold_job\<close> and \<open>release_job\<close> neither write nor read the workspace
  store: the store after the call is the store before it, and the same call on a world
  whose store was replaced by any other store \<open>fs\<close> gives the same answer (or lets the same
  exception through). This holds whether the scheduler call succeeds or fails.
\<close>

theorem C9_job_control_frame:
  "files (snd (delete_job ev jid force w)) = files w
   \<and> files (snd (hold_job ev jid w)) = files w
   \<and> files (snd (release_job ev jid w)) = files w
   \<and> fst (delete_job ev jid force (w\<lparr>files := fs\<rparr>)) = fst (delete_job ev jid force w)
   \<and> fst (hold_job ev jid (w\<lparr>files := fs\<rparr>)) = fst (hold_job ev jid w)
   \<and> fst (release_job ev jid (w\<lparr>files := fs\<rparr>)) = fst (release_job ev jid w)"
proof (intro conjI)
  show "files (snd (delete_job ev jid force w)) = files w"
    by (auto simp: delete_job_def delete_job_body_def get_pbs_client_def log_call_def Let_def
        split: sum.splits pbs_backend.splits option.splits prod.splits)
  show "files (snd (hold_job ev jid w)) = files w"
    by (auto simp: hold_job_def hold_job_body_def get_pbs_client_def log_call_def Let_def
        split: sum.splits pbs_backend.splits option.splits prod.splits)
  show "files (snd (release_job ev jid w)) = files w"
    by (auto simp: release_job_def release_job_body_def get_pbs_client_def log_call_def Let_def
        split: sum.splits pbs_backend.splits option.splits prod.splits)
  show "fst (delete_job ev jid force (w\<lparr>files := fs\<rparr>)) = fst (delete_job ev jid force w)"
    by (auto simp: delete_job_def delete_job_body_def get_pbs_client_def log_call_def Let_def
        split: sum.splits pbs_backend.splits option.splits prod.splits)
  show "fst (hold_job ev jid (w\<lparr>files := fs\<rparr>)) = fst (hold_job ev jid w)"
    by (auto simp: hold_job_def hold_job_body_def get_pbs_client_def log_call_def Let_def
        split: sum.splits pbs_backend.splits option.splits prod.splits)
  show "fst (release_job ev jid (w\<lparr>files := fs\<rparr>)) = fst (release_job ev jid w)"
    by (auto simp: release_job_def release_job_body_def get_pbs_client_def log_call_def Let_def
        split: sum.splits pbs_backend.splits option.splits prod.splits)
qed

theorem C9_job_control_frame_witness:
  "files (snd (delete_job ex_env ''1000.aurora-pbs-01'' False ex_world)) = ex_store
   \<and> files (snd (hold_job ex_env ''1000.aurora-pbs-01'' ex_world)) = ex_store
   \<and> files (snd (release_job ex_env ''1000.aurora-pbs-01'' ex_world)) = ex_store
   \<and> fst (delete_job ex_env ''1000.aurora-pbs-01'' False (ex_world\<lparr>files := []\<rparr>))
       = fst (delete_job ex_env ''1000.aurora-pbs-01'' False ex_world)
   \<and> fst (hold_job ex_env ''1000.aurora-pbs-01'' (ex_world\<lparr>files := []\<rparr>))
       = fst (hold_job ex_env ''1000.aurora-pbs-01'' ex_world)
   \<and> fst (release_job ex_env ''1000.aurora-pbs-01'' (ex_world\<lparr>files := []\<rparr>))
       = fst (release_job ex_env ''1000.aurora-pbs-01'' ex_world)"
  using C9_job_control_frame [of ex_env "''1000.aurora-pbs-01''" False ex_world "[]"]
  by (simp add: ex_world_def)

subsection \<open>Empty arguments of an update\<close>

text \<open>
  C10. For every update call on an existing workspace: an empty string passed for the
  status, the job id or the script path, and an empty metadata patch, are treated exactly
  like an absent argument (the call is the same function of the other arguments and the
  store). Consequently, whenever the call returns a record: if the stored status was not
  the empty string the new one is not either, and a job id or script path that was
  recorded is still recorded (never reset to \<^verbatim>\<open>None\<close>).
\<close>

theorem C10_update_ignores_empty_arguments:
  assumes "get_workspace wid fs = Some info"
  shows "update_workspace wid (Some []) jid sp md fs = update_workspace wid None jid sp md fs
    \<and> update_workspace wid st (Some []) sp md fs = update_workspace wid st None sp md fs
    \<and> update_workspace wid st jid (Some []) md fs = update_workspace wid st jid None md fs
    \<and> update_workspace wid st jid sp (Some Map.empty) fs = update_workspace wid st jid sp None fs
    \<and> (\<forall>info' fs'. update_workspace wid st jid sp md fs = (Inr (Some info'), fs') \<longrightarrow>
          (status info \<noteq> [] \<longrightarrow> status info' \<noteq> [])
          \<and> (job_id info \<noteq> None \<longrightarrow> job_id info' \<noteq> None)
          \<and> (script_path info \<noteq> None \<longrightarrow> script_path info' \<noteq> None))"
proof (intro conjI allI impI)
  show "update_workspace wid (Some []) jid sp md fs = update_workspace wid None jid sp md fs"
    using assms by (simp add: update_workspace_def)
  show "update_workspace wid st (Some []) sp md fs = update_workspace wid st None sp md fs"
    using assms by (simp add: update_workspace_def)
  show "update_workspace wid st jid (Some []) md fs = update_workspace wid st jid None md fs"
    using assms by (simp add: update_workspace_def)
  show "update_workspace wid st jid sp (Some Map.empty) fs = update_workspace wid st jid sp None fs"
    using assms by (simp add: update_workspace_def)
next
  fix info' fs'
  assume u: "update_workspace wid st jid sp md fs = (Inr (Some info'), fs')"
  from u assms
  have s: "status info' = (case st of Some s \<Rightarrow> if s \<noteq> [] then s else status info
                           | None \<Rightarrow> status info)"
    and j: "job_id info' = (case jid of Some j \<Rightarrow> if j \<noteq> [] then Some j else job_id info
                           | None \<Rightarrow> job_id info)"
    and p: "script_path info' = (case sp of Some s \<Rightarrow> if s \<noteq> [] then Some s else script_path info
                           | None \<Rightarrow> script_path info)"
    by (auto simp: update_workspace_def Let_def split: sum.splits)
  { assume "status info \<noteq> []" with s show "status info' \<noteq> []" by (simp split: option.splits) }
  { assume "job_id info \<noteq> None" with j show "job_id info' \<noteq> None"
      by (simp split: option.splits) }
  { assume "script_path info \<noteq> None" with p show "script_path info' \<noteq> None"
      by (simp split: option.splits) }
qed

theorem C10_witness:
  "get_workspace ''0123456789ab'' ex_store = Some ex_info
   \<and> update_workspace ''0123456789ab'' (Some []) (Some []) (Some []) (Some Map.empty) ex_store
       = update_workspace ''0123456789ab'' None None None None ex_store
   \<and> update_workspace ''0123456789ab'' None None None None ex_store = (Inr (Some ex_info), ex_store)"
proof -
  note c = C10_update_ignores_empty_arguments [OF get_ex_info]
  have "update_workspace ''0123456789ab'' (Some []) (Some []) (Some []) (Some Map.empty) ex_store
       = update_workspace ''0123456789ab'' None None None None ex_store"
    using c[where jid = "Some []" and sp = "Some []" and md = "Some Map.empty" and st = None]
      c[where jid = None and sp = "Some []" and md = "Some Map.empty" and st = None]
      c[where jid = None and sp = None and md = "Some Map.empty" and st = None]
    by simp
  moreover have "update_workspace ''0123456789ab'' None None None None ex_store
      = (Inr (Some ex_info), ex_store)"
    by (simp add: update_workspace_wf[OF wf_ex_store get_ex_info] Let_def)
       (simp add: ex_store_def ex_info_def)
  ultimately show ?thesis using get_ex_info by simp
qed

end
